theory Spec2Isabelle
  imports Complex_Main "HOL-Library.Word"
begin

unbundle bit_operations_syntax

section \<open>The Daly CAN driver (bms/daly\_can.py)\<close>

text \<open>
  A shallow embedding of class \<open>Daly_Can\<close>. Python's in-place mutation of \<open>self\<close> and
  of the bus object becomes explicit state passing: every method takes the battery model
  and the bus and returns an outcome together with both, so that what was mutated before
  an exception is still visible afterwards, as it is in Python.

  Python floats are IEEE 754 binary64 values with round-to-nearest, ties-to-even, as
  CPython computes them; section \<open>Python floats\<close> below defines the operations that
  this file uses.

  The bus is the sequence of frames it will deliver, in order. python-can's bus
  iterator blocks in \<open>recv\<close> until a frame arrives and never ends by itself; when the
  sequence is used up the call does not return, which is the outcome \<open>Blocked\<close> (the
  source: "this could end up in a deadlock if a package is not received").
\<close>

subsection \<open>Outcomes\<close>

datatype exn = StructError | IndexError | ValueError | KeyError | OverflowError

datatype 'a outcome = Return 'a | Raise exn | Blocked

subsection \<open>struct.unpack\_from\<close>

text \<open>
  The part of the format language of Python's \<open>struct\<close> module that this file uses:
  the byte-order prefix \<^verbatim>\<open>>\<close> (big-endian, standard sizes, no alignment) followed by format
  characters without repeat counts. Any other character is rejected by \<open>struct\<close> with
  \<open>struct.error: bad char in struct format\<close>; a buffer with fewer than \<open>calcsize\<close> bytes
  after the offset is rejected with \<open>struct.error\<close> as well.
\<close>

type_synonym byte = "8 word"

datatype pyval = PyInt int | PyBool bool

datatype fmt = Pad | SChar | UChar | Bool | Short | UShort | ULong

fun fmt_of_char :: "char \<Rightarrow> fmt option" where
  "fmt_of_char c =
     (if c = CHR ''x'' then Some Pad
      else if c = CHR ''b'' then Some SChar
      else if c = CHR ''B'' then Some UChar
      else if c = CHR ''?'' then Some Bool
      else if c = CHR ''h'' then Some Short
      else if c = CHR ''H'' then Some UShort
      else if c = CHR ''L'' then Some ULong
      else None)"

fun parse_codes :: "string \<Rightarrow> fmt list option" where
  "parse_codes [] = Some []"
| "parse_codes (c # cs) =
     (case fmt_of_char c of
        None \<Rightarrow> None
      | Some f \<Rightarrow> (case parse_codes cs of None \<Rightarrow> None | Some fs \<Rightarrow> Some (f # fs)))"

fun parse_format :: "string \<Rightarrow> fmt list option" where
  "parse_format [] = None"
| "parse_format (c # cs) = (if c = CHR ''>'' then parse_codes cs else None)"

fun fmt_size :: "fmt \<Rightarrow> nat" where
  "fmt_size Pad = 1"
| "fmt_size SChar = 1"
| "fmt_size UChar = 1"
| "fmt_size Bool = 1"
| "fmt_size Short = 2"
| "fmt_size UShort = 2"
| "fmt_size ULong = 4"

definition calcsize :: "fmt list \<Rightarrow> nat" where
  "calcsize fs = sum_list (map fmt_size fs)"

definition be_u16 :: "byte \<Rightarrow> byte \<Rightarrow> int" where
  "be_u16 hi lo = 256 * uint hi + uint lo"

definition be_s16 :: "byte \<Rightarrow> byte \<Rightarrow> int" where
  "be_s16 hi lo = (let u = be_u16 hi lo in if u < 32768 then u else u - 65536)"

definition be_u32 :: "byte \<Rightarrow> byte \<Rightarrow> byte \<Rightarrow> byte \<Rightarrow> int" where
  "be_u32 b3 b2 b1 b0 = 16777216 * uint b3 + 65536 * uint b2 + 256 * uint b1 + uint b0"

text \<open>Decoding proper; called only on a buffer that holds at least \<open>calcsize\<close> bytes.\<close>

fun unpack_fields :: "fmt list \<Rightarrow> byte list \<Rightarrow> pyval list" where
  "unpack_fields (Pad # fs) (b0 # bs) = unpack_fields fs bs"
| "unpack_fields (SChar # fs) (b0 # bs) = PyInt (sint b0) # unpack_fields fs bs"
| "unpack_fields (UChar # fs) (b0 # bs) = PyInt (uint b0) # unpack_fields fs bs"
| "unpack_fields (Bool # fs) (b0 # bs) = PyBool (b0 \<noteq> 0) # unpack_fields fs bs"
| "unpack_fields (Short # fs) (b0 # b1 # bs) = PyInt (be_s16 b0 b1) # unpack_fields fs bs"
| "unpack_fields (UShort # fs) (b0 # b1 # bs) = PyInt (be_u16 b0 b1) # unpack_fields fs bs"
| "unpack_fields (ULong # fs) (b0 # b1 # b2 # b3 # bs) =
     PyInt (be_u32 b0 b1 b2 b3) # unpack_fields fs bs"
| "unpack_fields fs bs = []"

definition unpack_from :: "string \<Rightarrow> byte list \<Rightarrow> nat \<Rightarrow> exn + pyval list" where
  "unpack_from format buffer offset =
     (case parse_format format of
        None \<Rightarrow> Inl StructError
      | Some fs \<Rightarrow>
          if length buffer < offset + calcsize fs then Inl StructError
          else Inr (unpack_fields fs (drop offset buffer)))"

subsection \<open>Python floats\<close>

text \<open>
  A float is a finite binary number \<open>m * 2 ^ e\<close>, an infinity or NaN. The sign of zero
  is not modelled: no operation of this file observes it. \<open>fround a b\<close> is the binary64
  value nearest to the fraction \<open>a / b\<close> (\<open>b\<close> positive), ties to even, with gradual
  underflow below \<open>2 ^ -1022\<close> and overflow to infinity from \<open>2 ^ 1024\<close>; its result has
  a mantissa of 53 bits exactly (fewer only for subnormal numbers, \<open>0\<close> for zero), so that
  equal results are equal terms.
\<close>

datatype pyfloat = Finite int int | PosInf | NegInf | NaN

function bit_length :: "int \<Rightarrow> nat" where
  "bit_length n = (if n \<le> 0 then 0 else Suc (bit_length (n div 2)))"
  by pat_completeness auto
termination
  by (relation "measure nat") auto

declare bit_length.simps [simp del]

text \<open>\<open>floor_log2_ratio a b\<close> is the integer \<open>k\<close> with \<open>2 ^ k \<le> a / b < 2 ^ (k + 1)\<close>.\<close>

definition floor_log2_ratio :: "int \<Rightarrow> int \<Rightarrow> int" where
  "floor_log2_ratio a b =
     (let k = int (bit_length a) - int (bit_length b)
      in if (if 0 \<le> k then b * 2 ^ nat k \<le> a else b \<le> a * 2 ^ nat (- k)) then k else k - 1)"

definition round_half_even :: "int \<Rightarrow> int \<Rightarrow> int" where
  "round_half_even num den =
     (let f = num div den; r = num mod den
      in if 2 * r < den then f else if den < 2 * r then f + 1 else if even f then f else f + 1)"

definition fround_ratio :: "int \<Rightarrow> int \<Rightarrow> pyfloat" where
  "fround_ratio a b =
     (let q = max (floor_log2_ratio a b - 52) (- 1074);
          n = (if 0 \<le> q then round_half_even a (b * 2 ^ nat q)
               else round_half_even (a * 2 ^ nat (- q)) b)
      in if n = 0 then Finite 0 0
         else if n = 2 ^ 53 then (if 971 < q + 1 then PosInf else Finite (2 ^ 52) (q + 1))
         else if 971 < q then PosInf else Finite n q)"

fun fneg :: "pyfloat \<Rightarrow> pyfloat" where
  "fneg (Finite m e) = Finite (- m) e"
| "fneg PosInf = NegInf"
| "fneg NegInf = PosInf"
| "fneg NaN = NaN"

definition fround :: "int \<Rightarrow> int \<Rightarrow> pyfloat" where
  "fround a b =
     (if a = 0 then Finite 0 0
      else if 0 < a then fround_ratio a b
      else fneg (fround_ratio (- a) b))"

text \<open>
  \<open>truediv a b\<close> is Python's \<open>a / b\<close> on integers, for \<open>b\<close> not zero (every divisor of
  this file is a literal) and a quotient in the range of floats: the correctly rounded
  quotient. A float literal is the float nearest to its decimal value.
\<close>

definition truediv :: "int \<Rightarrow> int \<Rightarrow> pyfloat" where
  "truediv a b = (if b < 0 then fround (- a) (- b) else fround a b)"

definition float_literal :: "int \<Rightarrow> int \<Rightarrow> pyfloat" where
  "float_literal a b = truediv a b"

definition fround_dyadic :: "int \<Rightarrow> int \<Rightarrow> pyfloat" where
  "fround_dyadic m e = (if 0 \<le> e then fround (m * 2 ^ nat e) 1 else fround m (2 ^ nat (- e)))"

fun fmul :: "pyfloat \<Rightarrow> pyfloat \<Rightarrow> pyfloat" where
  "fmul (Finite m1 e1) (Finite m2 e2) = fround_dyadic (m1 * m2) (e1 + e2)"
| "fmul NaN y = NaN"
| "fmul x NaN = NaN"
| "fmul (Finite m e) PosInf = (if m = 0 then NaN else if 0 < m then PosInf else NegInf)"
| "fmul (Finite m e) NegInf = (if m = 0 then NaN else if 0 < m then NegInf else PosInf)"
| "fmul PosInf (Finite m e) = (if m = 0 then NaN else if 0 < m then PosInf else NegInf)"
| "fmul NegInf (Finite m e) = (if m = 0 then NaN else if 0 < m then NegInf else PosInf)"
| "fmul PosInf PosInf = PosInf"
| "fmul PosInf NegInf = NegInf"
| "fmul NegInf PosInf = NegInf"
| "fmul NegInf NegInf = PosInf"

fun fsub :: "pyfloat \<Rightarrow> pyfloat \<Rightarrow> pyfloat" where
  "fsub (Finite m1 e1) (Finite m2 e2) =
     (let e = min e1 e2 in fround_dyadic (m1 * 2 ^ nat (e1 - e) - m2 * 2 ^ nat (e2 - e)) e)"
| "fsub NaN y = NaN"
| "fsub x NaN = NaN"
| "fsub PosInf PosInf = NaN"
| "fsub NegInf NegInf = NaN"
| "fsub PosInf y = PosInf"
| "fsub NegInf y = NegInf"
| "fsub x PosInf = NegInf"
| "fsub x NegInf = PosInf"

text \<open>\<open>flt x y\<close> is \<open>x < y\<close>; every comparison with NaN is false.\<close>

fun flt :: "pyfloat \<Rightarrow> pyfloat \<Rightarrow> bool" where
  "flt (Finite m1 e1) (Finite m2 e2) =
     (let e = min e1 e2 in m1 * 2 ^ nat (e1 - e) < m2 * 2 ^ nat (e2 - e))"
| "flt NaN y = False"
| "flt x NaN = False"
| "flt x NegInf = False"
| "flt PosInf y = False"
| "flt NegInf y = True"
| "flt x PosInf = True"

text \<open>
  \<open>float * int\<close> converts the integer to the nearest float first, and raises
  OverflowError when the integer is beyond the range of floats.
\<close>

definition float_times_int :: "pyfloat \<Rightarrow> int \<Rightarrow> exn + pyfloat" where
  "float_times_int x i =
     (case fround i 1 of
        PosInf \<Rightarrow> Inl OverflowError
      | NegInf \<Rightarrow> Inl OverflowError
      | f \<Rightarrow> Inr (fmul x f))"

text \<open>\<open>float / k\<close> for a positive integer literal \<open>k\<close>.\<close>

fun float_div_int :: "pyfloat \<Rightarrow> int \<Rightarrow> pyfloat" where
  "float_div_int (Finite m e) k =
     (if 0 \<le> e then truediv (m * 2 ^ nat e) k else truediv m (k * 2 ^ nat (- e)))"
| "float_div_int PosInf k = PosInf"
| "float_div_int NegInf k = NegInf"
| "float_div_int NaN k = NaN"

subsection \<open>Configuration (utils.py) and the battery model (battery.py)\<close>

text \<open>
  The constants imported from \<open>utils\<close> are parameters. \<open>Cell_True\<close> is the object that
  the constructor call \<open>Cell(True)\<close> of \<open>battery.py\<close> returns.
\<close>

record cell =
  voltage :: "pyfloat option"

record config =
  BATTERY_CAPACITY :: pyfloat
  INVERT_CURRENT_MEASUREMENT :: int
  MAX_BATTERY_CHARGE_CURRENT :: pyfloat
  MAX_BATTERY_DISCHARGE_CURRENT :: pyfloat
  MIN_CELL_VOLTAGE :: pyfloat
  Cell_True :: cell

record protection =
  high_voltage :: "int option"
  low_voltage :: "int option"
  high_charge_temp :: "int option"
  low_charge_temp :: "int option"
  high_temperature :: "int option"
  low_temperature :: "int option"
  high_charge_current :: "int option"
  low_soc :: "int option"

record history =
  charge_cycles :: "int option"

text \<open>The attributes of \<open>self\<close> that this file reads or writes; \<open>None\<close> is Python's.\<close>

record battery =
  capacity :: "pyfloat option"
  cell_count :: "int option"
  temp_sensors :: "int option"
  charger_connected :: "bool option"
  load_connected :: "bool option"
  history :: history
  hardware_version :: "string option"
  voltage :: "pyfloat option"
  current :: "pyfloat option"
  soc :: "pyfloat option"
  protection :: protection
  cells :: "cell list"
  cell_max_no :: "int option"
  cell_min_no :: "int option"
  cell_max_voltage :: "pyfloat option"
  cell_min_voltage :: "pyfloat option"
  temp1 :: "int option"
  temp2 :: "int option"
  charge_fet :: "bool option"
  discharge_fet :: "bool option"
  capacity_remain :: "pyfloat option"
  poll_step :: int
  device_address :: int
  error_active :: bool
  last_error_time :: pyfloat

definition CURRENT_ZERO_CONSTANT :: int where
  "CURRENT_ZERO_CONSTANT = 30000"

definition TEMP_ZERO_CONSTANT :: int where
  "TEMP_ZERO_CONSTANT = 40"

subsection \<open>The bus\<close>

text \<open>
  The requests are named after the attribute that the source passes as arbitration id
  (\<open>self.command_soc\<close>, ...). A bus holds the payloads (\<open>msg.data\<close>) of the frames it will
  deliver and the log of the requests sent on it. \<open>read_bus_data_daly\<close> accepts every
  frame it receives, whatever its arbitration id.
\<close>

datatype command =
    command_soc | command_minmax_cell_volts | command_minmax_temp | command_fet
  | command_status | command_cell_volts | command_alarm

record can_bus =
  rx :: "byte list list"
  sent :: "command list"

text \<open>What \<open>read_bus_data_daly\<close> returns is a bytearray, never \<open>False\<close>.\<close>

datatype response = Bytes "byte list" | PyFalse

definition send :: "can_bus \<Rightarrow> command \<Rightarrow> can_bus" where
  "send bus c = bus\<lparr>sent := sent bus @ [c]\<rparr>"

text \<open>The loop \<open>for msg in can_bus\<close> of \<open>read_bus_data_daly\<close>.\<close>

fun recv_loop :: "int \<Rightarrow> int \<Rightarrow> byte list \<Rightarrow> byte list list \<Rightarrow> byte list outcome \<times> byte list list" where
  "recv_loop expectedMessageCount count response [] = (Blocked, [])"
| "recv_loop expectedMessageCount count response (msg # msgs) =
     (let response = response @ msg; count = count + 1
      in if count = expectedMessageCount then (Return response, msgs)
         else recv_loop expectedMessageCount count response msgs)"

definition read_bus_data_daly :: "can_bus \<Rightarrow> command \<Rightarrow> int \<Rightarrow> response outcome \<times> can_bus" where
  "read_bus_data_daly bus c expectedMessageCount =
     (let bus = send bus c
      in case recv_loop expectedMessageCount 0 [] (rx bus) of
           (Return response, msgs) \<Rightarrow> (Return (Bytes response), bus\<lparr>rx := msgs\<rparr>)
         | (Raise e, msgs) \<Rightarrow> (Raise e, bus\<lparr>rx := msgs\<rparr>)
         | (Blocked, msgs) \<Rightarrow> (Blocked, bus\<lparr>rx := msgs\<rparr>))"

subsection \<open>The decoders\<close>

type_synonym result = "bool outcome \<times> battery \<times> can_bus"

text \<open>
  \<open>read_soc_data\<close>: the loop \<open>while triesValid > 0\<close>, then the method. The locals
  \<open>voltage\<close>, \<open>current\<close> and \<open>soc\<close> of the source are \<open>voltage0\<close>, \<open>current0\<close>
  (\<open>current1\<close> once rescaled) and \<open>soc0\<close> here, the plain names being the attributes.
\<close>

function read_soc_while :: "config \<Rightarrow> pyfloat \<Rightarrow> pyfloat \<Rightarrow> int \<Rightarrow> battery \<Rightarrow> can_bus \<Rightarrow> result" where
  "read_soc_while cfg crntMinValid crntMaxValid triesValid self ser =
     (if triesValid > 0 then
        (case read_bus_data_daly ser command_soc 1 of
           (Raise e, ser) \<Rightarrow> (Raise e, self, ser)
         | (Blocked, ser) \<Rightarrow> (Blocked, self, ser)
         | (Return PyFalse, ser) \<Rightarrow> (Return False, self, ser)
         | (Return (Bytes soc_data), ser) \<Rightarrow>
             (case unpack_from ''>hhhh'' soc_data 0 of
                Inl e \<Rightarrow> (Raise e, self, ser)
              | Inr [PyInt voltage0, PyInt tmp, PyInt current0, PyInt soc0] \<Rightarrow>
                  (case float_times_int (truediv (current0 - CURRENT_ZERO_CONSTANT) (- 10))
                          (INVERT_CURRENT_MEASUREMENT cfg) of
                     Inl e \<Rightarrow> (Raise e, self, ser)
                   | Inr current1 \<Rightarrow>
                       if flt crntMinValid current1 \<and> flt current1 crntMaxValid then
                         (Return True,
                          self\<lparr>voltage := Some (truediv voltage0 10),
                               current := Some current1,
                               soc := Some (truediv soc0 10)\<rparr>,
                          ser)
                       else read_soc_while cfg crntMinValid crntMaxValid (triesValid - 1) self ser)
              | Inr _ \<Rightarrow> (Raise ValueError, self, ser)))
      else (Return False, self, ser))"
  by pat_completeness auto
termination
  by (relation "measure (\<lambda>(cfg, lo, hi, triesValid, self, ser). nat triesValid)") auto

definition read_soc_data :: "config \<Rightarrow> battery \<Rightarrow> can_bus \<Rightarrow> result" where
  "read_soc_data cfg self ser =
     (let crntMinValid = fneg (fmul (MAX_BATTERY_DISCHARGE_CURRENT cfg) (float_literal 21 10));
          crntMaxValid = fmul (MAX_BATTERY_CHARGE_CURRENT cfg) (float_literal 13 10);
          triesValid = 2
      in read_soc_while cfg crntMinValid crntMaxValid triesValid self ser)"

text \<open>\<open>str\<close> of a Python integer or of \<open>None\<close>, for \<open>hardware_version\<close>.\<close>

fun str_nat :: "nat \<Rightarrow> string" where
  "str_nat n =
     (if n < 10 then [''0123456789'' ! n]
      else str_nat (n div 10) @ [''0123456789'' ! (n mod 10)])"

definition str :: "int option \<Rightarrow> string" where
  "str v =
     (case v of
        None \<Rightarrow> ''None''
      | Some i \<Rightarrow> if i < 0 then CHR ''-'' # str_nat (nat (- i)) else str_nat (nat i))"

definition read_status_data :: "battery \<Rightarrow> can_bus \<Rightarrow> result" where
  "read_status_data self bus =
     (case read_bus_data_daly bus command_status 1 of
        (Raise e, bus) \<Rightarrow> (Raise e, self, bus)
      | (Blocked, bus) \<Rightarrow> (Blocked, self, bus)
      | (Return PyFalse, bus) \<Rightarrow> (Return False, self, bus)
      | (Return (Bytes status_data), bus) \<Rightarrow>
          (case unpack_from ''>bb??bhx'' status_data 0 of
             Inl e \<Rightarrow> (Raise e, self, bus)
           | Inr [PyInt cell_count0, PyInt temp_sensors0, PyBool charger_connected0,
                  PyBool load_connected0, PyInt state, PyInt charge_cycles0] \<Rightarrow>
               (let self = self\<lparr>cell_count := Some cell_count0,
                                temp_sensors := Some temp_sensors0,
                                charger_connected := Some charger_connected0,
                                load_connected := Some load_connected0,
                                history := (history self)\<lparr>charge_cycles := Some charge_cycles0\<rparr>\<rparr>
                in if cell_count self = Some 0 then (Return False, self, bus)
                   else (Return True,
                         self\<lparr>hardware_version :=
                                 Some (''DalyBMS '' @ str (cell_count self) @ ''S'')\<rparr>,
                         bus))
           | Inr _ \<Rightarrow> (Raise ValueError, self, bus)))"

text \<open>
  \<open>read_alarm_data\<close>. Python's \<open>&\<close> on (possibly negative) integers is \<open>AND\<close> on \<open>int\<close>;
  an integer is true when it is not zero (\<open>truthy\<close>).
\<close>

definition truthy :: "int \<Rightarrow> bool" where
  "truthy n \<longleftrightarrow> n \<noteq> 0"

definition severity :: "bool \<Rightarrow> bool \<Rightarrow> int option" where
  "severity alarm pre_alarm = Some (if alarm then 2 else if pre_alarm then 1 else 0)"

definition read_alarm_data :: "battery \<Rightarrow> can_bus \<Rightarrow> result" where
  "read_alarm_data self ser =
     (case read_bus_data_daly ser command_alarm 1 of
        (Raise e, ser) \<Rightarrow> (Raise e, self, ser)
      | (Blocked, ser) \<Rightarrow> (Blocked, self, ser)
      | (Return PyFalse, ser) \<Rightarrow> (Return False, self, ser)
      | (Return (Bytes alarm_data), ser) \<Rightarrow>
          (case unpack_from ''>bbbbbbbb'' alarm_data 0 of
             Inl e \<Rightarrow> (Raise e, self, ser)
           | Inr [PyInt al_volt, PyInt al_temp, PyInt al_crnt_soc, PyInt al_diff,
                  PyInt al_mos, PyInt al_misc1, PyInt al_misc2, PyInt al_fault] \<Rightarrow>
               (Return True,
                self\<lparr>protection := (protection self)
                  \<lparr>high_voltage := severity (truthy (al_volt AND 48)) (truthy (al_volt AND 15)),
                   low_voltage := severity (truthy (al_volt AND 128)) (truthy (al_volt AND 64)),
                   high_charge_temp := severity (truthy (al_temp AND 2)) (truthy (al_temp AND 1)),
                   low_charge_temp := severity (truthy (al_temp AND 8)) (truthy (al_temp AND 4)),
                   high_temperature := severity (truthy (al_temp AND 32)) (truthy (al_temp AND 16)),
                   low_temperature := severity (truthy (al_temp AND 128)) (truthy (al_temp AND 64)),
                   high_charge_current :=
                     severity (truthy (al_crnt_soc AND 2) \<or> truthy (al_crnt_soc AND 8))
                              (truthy (al_crnt_soc AND 1) \<or> truthy (al_crnt_soc AND 4)),
                   low_soc := severity (truthy (al_crnt_soc AND 128)) (truthy (al_crnt_soc AND 64))\<rparr>\<rparr>,
                ser)
           | Inr _ \<Rightarrow> (Raise ValueError, self, ser)))"

text \<open>
  \<open>read_cells_volts\<close>. \<open>py_index\<close> is Python's list indexing: a negative index counts
  from the end, an index out of range raises IndexError.
\<close>

definition py_index :: "nat \<Rightarrow> int \<Rightarrow> nat option" where
  "py_index n i =
     (let j = (if i < 0 then int n + i else i)
      in if 0 \<le> j \<and> j < int n then Some (nat j) else None)"

text \<open>The loop \<open>for idx in range(3)\<close>; \<open>idxs\<close> holds the indices still to come.\<close>

fun cells_for :: "pyfloat \<Rightarrow> int \<Rightarrow> int \<Rightarrow> int list \<Rightarrow> nat list \<Rightarrow> cell list \<Rightarrow> unit outcome \<times> cell list" where
  "cells_for lowMin count frame frameCell [] cs = (Return (), cs)"
| "cells_for lowMin count frame frameCell (idx # idxs) cs =
     (let cellnum = ((frame - 1) * 3) + int idx
      in if cellnum \<ge> count then (Return (), cs)
         else
           (let cellVoltage = truediv (frameCell ! idx) 1000
            in case py_index (length cs) cellnum of
                 None \<Rightarrow> (Raise IndexError, cs)
               | Some k \<Rightarrow>
                   cells_for lowMin count frame frameCell idxs
                     (cs[k := (cs ! k)\<lparr>cell.voltage :=
                                 (if flt cellVoltage lowMin then None else Some cellVoltage)\<rparr>])))"

text \<open>The loop \<open>while bufIdx < len(cells_volts_data)\<close>.\<close>

function cells_while :: "pyfloat \<Rightarrow> int \<Rightarrow> byte list \<Rightarrow> nat \<Rightarrow> cell list \<Rightarrow> unit outcome \<times> cell list" where
  "cells_while lowMin count cells_volts_data bufIdx cs =
     (if bufIdx < length cells_volts_data then
        (case unpack_from ''>Bhhh'' cells_volts_data bufIdx of
           Inl e \<Rightarrow> (Raise e, cs)
         | Inr [PyInt frame, PyInt c0, PyInt c1, PyInt c2] \<Rightarrow>
             (case cells_for lowMin count frame [c0, c1, c2] [0, 1, 2] cs of
                (Return u, cs) \<Rightarrow> cells_while lowMin count cells_volts_data (bufIdx + 8) cs
              | (Raise e, cs) \<Rightarrow> (Raise e, cs)
              | (Blocked, cs) \<Rightarrow> (Blocked, cs))
         | Inr _ \<Rightarrow> (Raise ValueError, cs))
      else (Return (), cs))"
  by pat_completeness auto
termination
  by (relation "measure (\<lambda>(lowMin, count, buf, bufIdx, cs). length buf - bufIdx)") auto

definition read_cells_volts :: "config \<Rightarrow> battery \<Rightarrow> can_bus \<Rightarrow> result" where
  "read_cells_volts cfg self bus =
     (case cell_count self of
        None \<Rightarrow> (Return True, self, bus)
      | Some count \<Rightarrow>
          (case read_bus_data_daly bus command_cell_volts 6 of
             (Raise e, bus) \<Rightarrow> (Raise e, self, bus)
           | (Blocked, bus) \<Rightarrow> (Blocked, self, bus)
           | (Return PyFalse, bus) \<Rightarrow> (Return False, self, bus)
           | (Return (Bytes cells_volts_data), bus) \<Rightarrow>
               (let lowMin = float_div_int (MIN_CELL_VOLTAGE cfg) 2;
                    self = (if int (length (cells self)) \<noteq> count
                            then self\<lparr>cells := replicate (nat count) (Cell_True cfg)\<rparr>
                            else self)
                in case cells_while lowMin count cells_volts_data 0 (cells self) of
                     (Return u, cs) \<Rightarrow> (Return True, self\<lparr>cells := cs\<rparr>, bus)
                   | (Raise e, cs) \<Rightarrow> (Raise e, self\<lparr>cells := cs\<rparr>, bus)
                   | (Blocked, cs) \<Rightarrow> (Blocked, self\<lparr>cells := cs\<rparr>, bus))))"

definition read_cell_voltage_range_data :: "battery \<Rightarrow> can_bus \<Rightarrow> result" where
  "read_cell_voltage_range_data self ser =
     (case read_bus_data_daly ser command_minmax_cell_volts 1 of
        (Raise e, ser) \<Rightarrow> (Raise e, self, ser)
      | (Blocked, ser) \<Rightarrow> (Blocked, self, ser)
      | (Return PyFalse, ser) \<Rightarrow> (Return False, self, ser)
      | (Return (Bytes minmax_data), ser) \<Rightarrow>
          (case unpack_from ''>hbhb'' minmax_data 0 of
             Inl e \<Rightarrow> (Raise e, self, ser)
           | Inr [PyInt cell_max_voltage0, PyInt max_no, PyInt cell_min_voltage0, PyInt min_no] \<Rightarrow>
               (Return True,
                self\<lparr>cell_max_no := Some (max_no - 1),
                     cell_min_no := Some (min_no - 1),
                     cell_max_voltage := Some (truediv cell_max_voltage0 1000),
                     cell_min_voltage := Some (truediv cell_min_voltage0 1000)\<rparr>,
                ser)
           | Inr _ \<Rightarrow> (Raise ValueError, self, ser)))"

definition read_temperature_range_data :: "battery \<Rightarrow> can_bus \<Rightarrow> result" where
  "read_temperature_range_data self ser =
     (case read_bus_data_daly ser command_minmax_temp 1 of
        (Raise e, ser) \<Rightarrow> (Raise e, self, ser)
      | (Blocked, ser) \<Rightarrow> (Blocked, self, ser)
      | (Return PyFalse, ser) \<Rightarrow> (Return False, self, ser)
      | (Return (Bytes minmax_data), ser) \<Rightarrow>
          (case unpack_from ''>bbbb'' minmax_data 0 of
             Inl e \<Rightarrow> (Raise e, self, ser)
           | Inr [PyInt max_temp, PyInt max_no, PyInt min_temp, PyInt min_no] \<Rightarrow>
               (Return True,
                self\<lparr>temp1 := Some (min_temp - TEMP_ZERO_CONSTANT),
                     temp2 := Some (max_temp - TEMP_ZERO_CONSTANT)\<rparr>,
                ser)
           | Inr _ \<Rightarrow> (Raise ValueError, self, ser)))"

definition read_fed_data :: "battery \<Rightarrow> can_bus \<Rightarrow> result" where
  "read_fed_data self ser =
     (case read_bus_data_daly ser command_fet 1 of
        (Raise e, ser) \<Rightarrow> (Raise e, self, ser)
      | (Blocked, ser) \<Rightarrow> (Blocked, self, ser)
      | (Return PyFalse, ser) \<Rightarrow> (Return False, self, ser)
      | (Return (Bytes fed_data), ser) \<Rightarrow>
          (case unpack_from ''>b??BL'' fed_data 0 of
             Inl e \<Rightarrow> (Raise e, self, ser)
           | Inr [PyInt status, PyBool charge_fet0, PyBool discharge_fet0, PyInt bms_cycles,
                  PyInt capacity_remain0] \<Rightarrow>
               (Return True,
                self\<lparr>charge_fet := Some charge_fet0,
                     discharge_fet := Some discharge_fet0,
                     capacity_remain := Some (truediv capacity_remain0 1000)\<rparr>,
                ser)
           | Inr _ \<Rightarrow> (Raise ValueError, self, ser)))"

subsection \<open>The poll cycle\<close>

text \<open>
  \<open>result = result and f(...)\<close>: \<open>f\<close> is called only when \<open>result\<close> is true; an exception
  raised earlier has already left the method.
\<close>

definition and_then :: "result \<Rightarrow> (battery \<Rightarrow> can_bus \<Rightarrow> result) \<Rightarrow> result" where
  "and_then r f = (case r of (Return True, self, bus) \<Rightarrow> f self bus | _ \<Rightarrow> r)"

definition refresh_data :: "config \<Rightarrow> battery \<Rightarrow> can_bus \<Rightarrow> result" where
  "refresh_data cfg self can_bus =
     (case and_then (read_soc_data cfg self can_bus) read_fed_data of
        (Return result, self, can_bus) \<Rightarrow>
          (case
             (if poll_step self = 0 then
                and_then (Return result, self, can_bus) read_cell_voltage_range_data
              else if poll_step self = 1 then
                and_then (Return result, self, can_bus) read_alarm_data
              else if poll_step self = 2 then
                and_then (Return result, self, can_bus) (read_cells_volts cfg)
              else if poll_step self = 3 then
                (case and_then (Return result, self, can_bus) read_temperature_range_data of
                   (Return result, self, can_bus) \<Rightarrow>
                     (Return result, self\<lparr>poll_step := - 1\<rparr>, can_bus)
                 | r \<Rightarrow> r)
              else (Return result, self, can_bus))
           of
             (Return result, self, can_bus) \<Rightarrow>
               (Return result, self\<lparr>poll_step := poll_step self + 1\<rparr>, can_bus)
           | r \<Rightarrow> r)
      | r \<Rightarrow> r)"

subsection \<open>The cache-pull path\<close>

definition COMMAND_STATUS :: string where
  "COMMAND_STATUS = ''COMMAND_STATUS''"

definition CAN_FRAMES :: "(string \<times> int list) list" where
  "CAN_FRAMES =
     [(''COMMAND_BASE'', [0x18940140]),
      (''COMMAND_SOC'', [0x18900140]),
      (''COMMAND_MINMAX_CELL_VOLTS'', [0x18910140]),
      (''COMMAND_MINMAX_TEMP'', [0x18920140]),
      (''COMMAND_FET'', [0x18930140]),
      (''COMMAND_STATUS'', [0x18940140]),
      (''COMMAND_CELL_VOLTS'', [0x18950140]),
      (''COMMAND_TEMP'', [0x18960140]),
      (''COMMAND_CELL_BALANCE'', [0x18970140]),
      (''COMMAND_ALARM'', [0x18980140]),
      (''RESPONSE_BASE'', [0x18944001]),
      (''RESPONSE_SOC'', [0x18904001]),
      (''RESPONSE_MINMAX_CELL_VOLTS'', [0x18914001]),
      (''RESPONSE_MINMAX_TEMP'', [0x18924001]),
      (''RESPONSE_FET'', [0x18934001]),
      (''RESPONSE_STATUS'', [0x18944001]),
      (''RESPONSE_CELL_VOLTS'', [0x18954001]),
      (''RESPONSE_TEMP'', [0x18964001]),
      (''RESPONSE_CELL_BALANCE'', [0x18974001]),
      (''RESPONSE_ALARM'', [0x18984001])]"

text \<open>
  The loop \<open>for frame_id, data in self.can_message_cache_callback().items()\<close> of
  \<open>read_daly_can\<close>; the items of the cache are a parameter, in the dictionary's order.
\<close>

fun cache_loop :: "(int \<times> byte list) list \<Rightarrow> int \<Rightarrow> battery \<Rightarrow> int outcome \<times> battery" where
  "cache_loop [] data_check self = (Return data_check, self)"
| "cache_loop ((frame_id, data) # items) data_check self =
     (let normalized_arbitration_id = frame_id + device_address self
      in case map_of CAN_FRAMES COMMAND_STATUS of
           None \<Rightarrow> (Raise KeyError, self)
         | Some ids \<Rightarrow>
         if normalized_arbitration_id \<in> set ids then
           (case unpack_from ''>BB??BHX'' data 0 of
              Inl e \<Rightarrow> (Raise e, self)
            | Inr [PyInt cell_count0, PyInt temp_sensors0, PyBool charger_connected0,
                   PyBool load_connected0, PyInt state, PyInt charge_cycles0] \<Rightarrow>
                (let self = self\<lparr>cell_count := Some cell_count0,
                                 temp_sensors := Some temp_sensors0,
                                 charger_connected := Some charger_connected0,
                                 load_connected := Some load_connected0,
                                 history := (history self)\<lparr>charge_cycles := Some charge_cycles0\<rparr>\<rparr>;
                     data_check = (if cell_count self \<noteq> Some 0 then data_check + 1 else data_check)
                 in cache_loop items data_check
                      (self\<lparr>hardware_version :=
                              Some (''Daly CAN '' @ str (cell_count self) @ ''S'')\<rparr>))
            | Inr _ \<Rightarrow> (Raise ValueError, self))
         else cache_loop items data_check self)"

text \<open>\<open>read_daly_can\<close>; \<open>now\<close> is what \<open>time()\<close> returns.\<close>

definition read_daly_can :: "pyfloat \<Rightarrow> (int \<times> byte list) list \<Rightarrow> battery \<Rightarrow> bool outcome \<times> battery" where
  "read_daly_can now cache self =
     (let self = (if flt (float_literal 120 1) (fsub now (last_error_time self)) \<and> error_active self = True
                  then self\<lparr>error_active := False\<rparr> else self)
      in case cache_loop cache 0 self of
           (Return data_check, self) \<Rightarrow>
             if data_check = 0 then (Return False, self) else (Return True, self)
         | (Raise e, self) \<Rightarrow> (Raise e, self)
         | (Blocked, self) \<Rightarrow> (Blocked, self))"

subsection \<open>Values for evaluation\<close>

text \<open>
  The model as \<open>__init__\<close> leaves it (attributes that \<open>__init__\<close> does not set in this
  file are \<open>None\<close>, the cell list is empty), and one configuration.
\<close>

definition init_battery :: battery where
  "init_battery =
     \<lparr>capacity = None, cell_count = None, temp_sensors = None, charger_connected = None,
      load_connected = None, history = \<lparr>charge_cycles = None\<rparr>, hardware_version = None,
      voltage = None, current = None, soc = None,
      protection = \<lparr>high_voltage = None, low_voltage = None, high_charge_temp = None,
                    low_charge_temp = None, high_temperature = None, low_temperature = None,
                    high_charge_current = None, low_soc = None\<rparr>,
      cells = [], cell_max_no = None, cell_min_no = None, cell_max_voltage = None,
      cell_min_voltage = None, temp1 = None, temp2 = None, charge_fet = None,
      discharge_fet = None, capacity_remain = None, poll_step = 0, device_address = 0,
      error_active = False, last_error_time = Finite 0 0\<rparr>"

definition example_config :: config where
  "example_config =
     \<lparr>BATTERY_CAPACITY = float_literal 100 1, INVERT_CURRENT_MEASUREMENT = 1,
      MAX_BATTERY_CHARGE_CURRENT = float_literal 50 1,
      MAX_BATTERY_DISCHARGE_CURRENT = float_literal 60 1,
      MIN_CELL_VOLTAGE = float_literal 29 10, Cell_True = \<lparr>cell.voltage = None\<rparr>\<rparr>"

subsection \<open>Observing a call\<close>

text \<open>
  The parts of a result, the requests that a call has added to the log of the bus, and
  the attributes that no decoder of the poll cycle assigns.
\<close>

definition outcome_of :: "result \<Rightarrow> bool outcome" where
  "outcome_of r = fst r"

definition model_of :: "result \<Rightarrow> battery" where
  "model_of r = fst (snd r)"

definition bus_of :: "result \<Rightarrow> can_bus" where
  "bus_of r = snd (snd r)"

definition new_requests :: "can_bus \<Rightarrow> can_bus \<Rightarrow> command list" where
  "new_requests bus bus' = drop (length (sent bus)) (sent bus')"

definition same_ctl :: "battery \<Rightarrow> battery \<Rightarrow> bool" where
  "same_ctl a b \<longleftrightarrow>
     poll_step a = poll_step b \<and> error_active a = error_active b \<and>
     last_error_time a = last_error_time b \<and> cell_count a = cell_count b"

subsection \<open>The SOC payload\<close>

text \<open>
  \<open>raw_u16 d k\<close> is the unsigned big-endian 16-bit field at byte \<open>k\<close> of a payload and
  \<open>as_signed16\<close> its reading as a two's-complement number. \<open>soc_current\<close> is the
  physical current \<open>(raw - 30000) / -10 * INVERT_CURRENT_MEASUREMENT\<close> in float
  arithmetic, from the signed reading of bytes 4 and 5; \<open>crnt_valid\<close> says that a current
  lies strictly between \<open>-(MAX_BATTERY_DISCHARGE_CURRENT * 2.1)\<close> and
  \<open>MAX_BATTERY_CHARGE_CURRENT * 1.3\<close>, both computed in float arithmetic.
\<close>

definition raw_u16 :: "byte list \<Rightarrow> nat \<Rightarrow> int" where
  "raw_u16 d k = 256 * uint (d ! k) + uint (d ! (k + 1))"

definition as_signed16 :: "int \<Rightarrow> int" where
  "as_signed16 u = (if u < 32768 then u else u - 65536)"

definition soc_current :: "config \<Rightarrow> byte list \<Rightarrow> exn + pyfloat" where
  "soc_current cfg d =
     float_times_int (truediv (as_signed16 (raw_u16 d 4) - 30000) (- 10))
       (INVERT_CURRENT_MEASUREMENT cfg)"

definition crnt_valid :: "config \<Rightarrow> pyfloat \<Rightarrow> bool" where
  "crnt_valid cfg c \<longleftrightarrow>
     flt (fneg (fmul (MAX_BATTERY_DISCHARGE_CURRENT cfg) (float_literal 21 10))) c \<and>
     flt c (fmul (MAX_BATTERY_CHARGE_CURRENT cfg) (float_literal 13 10))"

definition soc_accepted :: "battery \<Rightarrow> byte list \<Rightarrow> pyfloat \<Rightarrow> battery" where
  "soc_accepted self d c =
     self\<lparr>voltage := Some (truediv (as_signed16 (raw_u16 d 0)) 10),
          current := Some c,
          soc := Some (truediv (as_signed16 (raw_u16 d 6)) 10)\<rparr>"

subsection \<open>The optional read of a poll step\<close>

text \<open>
  The decoder that \<open>refresh_data\<close> calls in the branch of a poll step, and the request
  that this decoder sends: \<open>read_cells_volts\<close> sends none while \<open>cell_count\<close> is \<open>None\<close>.
\<close>

definition optional_read :: "config \<Rightarrow> int \<Rightarrow> battery \<Rightarrow> can_bus \<Rightarrow> result" where
  "optional_read cfg step self bus =
     (if step = 0 then read_cell_voltage_range_data self bus
      else if step = 1 then read_alarm_data self bus
      else if step = 2 then read_cells_volts cfg self bus
      else if step = 3 then read_temperature_range_data self bus
      else (Return True, self, bus))"

definition optional_requests :: "int \<Rightarrow> int option \<Rightarrow> command list" where
  "optional_requests step count =
     (if step = 0 then [command_minmax_cell_volts]
      else if step = 1 then [command_alarm]
      else if step = 2 then (if count = None then [] else [command_cell_volts])
      else if step = 3 then [command_minmax_temp]
      else [])"

definition is_optional :: "command \<Rightarrow> bool" where
  "is_optional c \<longleftrightarrow> c \<noteq> command_soc \<and> c \<noteq> command_fet"

text \<open>Payloads of the seven responses, for evaluation.\<close>

definition soc_frame :: "byte list" where
  "soc_frame = [2, 8, 0, 0, 117, 98, 1, 244]"

definition fet_frame :: "byte list" where
  "fet_frame = [0, 1, 1, 0, 0, 1, 134, 160]"

definition range_frame :: "byte list" where
  "range_frame = [12, 248, 1, 12, 228, 4, 0, 0]"

definition alarm_frame :: "byte list" where
  "alarm_frame = [48, 0, 0, 0, 0, 0, 0, 0]"

definition temp_frame :: "byte list" where
  "temp_frame = [65, 1, 63, 2, 0, 0, 0, 0]"

definition cell_frames :: "byte list list" where
  "cell_frames =
     [[1, 12, 228, 12, 229, 12, 230, 0], [2, 12, 231, 0, 0, 0, 0, 0],
      [3, 0, 0, 0, 0, 0, 0, 0], [4, 0, 0, 0, 0, 0, 0, 0],
      [5, 0, 0, 0, 0, 0, 0, 0], [6, 0, 0, 0, 0, 0, 0, 0]]"

section \<open>Properties\<close>

subsection \<open>Payloads and the bus\<close>

declare read_soc_while.simps [simp del]
declare cells_while.simps [simp del]
declare bit_length.simps [simp del]

lemma length_ge_8E:
  "8 \<le> length (d :: 'a list) \<Longrightarrow>
     \<exists>b0 b1 b2 b3 b4 b5 b6 b7 bs. d = b0 # b1 # b2 # b3 # b4 # b5 # b6 # b7 # bs"
  by (auto simp: numeral_eq_Suc Suc_le_length_iff)

lemma unpack_hhhh:
  "8 \<le> length d \<Longrightarrow> unpack_from ''>hhhh'' d 0 =
     Inr [PyInt (be_s16 (d ! 0) (d ! 1)), PyInt (be_s16 (d ! 2) (d ! 3)),
          PyInt (be_s16 (d ! 4) (d ! 5)), PyInt (be_s16 (d ! 6) (d ! 7))]"
  by (drule length_ge_8E) (clarsimp simp: unpack_from_def calcsize_def)

lemma read_bus_data_daly_1:
  "rx bus = d # rest \<Longrightarrow>
     read_bus_data_daly bus c 1 =
       (Return (Bytes d), bus\<lparr>rx := rest, sent := sent bus @ [c]\<rparr>)"
  by (simp add: read_bus_data_daly_def send_def)

subsection \<open>The SOC decoder\<close>

lemmas float_eval = truediv_def float_literal_def fround_def fround_ratio_def floor_log2_ratio_def
  round_half_even_def fround_dyadic_def float_times_int_def bit_length.simps Let_def

lemma be_s16_raw:
  "be_s16 (d ! 0) (d ! 1) = as_signed16 (raw_u16 d 0)"
  "be_s16 (d ! 0) (d ! Suc 0) = as_signed16 (raw_u16 d 0)"
  "be_s16 (d ! 4) (d ! 5) = as_signed16 (raw_u16 d 4)"
  "be_s16 (d ! 6) (d ! 7) = as_signed16 (raw_u16 d 6)"
  by (simp_all add: be_s16_def be_u16_def as_signed16_def raw_u16_def Let_def)

lemma read_soc_while_accept:
  assumes "0 < t" "rx ser = d # rest" "8 \<le> length d"
    "soc_current cfg d = Inr c" "flt lo c" "flt c hi"
  shows "read_soc_while cfg lo hi t self ser =
     (Return True, soc_accepted self d c, ser\<lparr>rx := rest, sent := sent ser @ [command_soc]\<rparr>)"
  using assms
  by (subst read_soc_while.simps)
     (simp add: read_bus_data_daly_1 unpack_hhhh be_s16_raw soc_current_def soc_accepted_def
        CURRENT_ZERO_CONSTANT_def)

lemma read_soc_while_reject:
  assumes "0 < t" "rx ser = d # rest" "8 \<le> length d"
    "soc_current cfg d = Inr c" "\<not> (flt lo c \<and> flt c hi)"
  shows "read_soc_while cfg lo hi t self ser =
     read_soc_while cfg lo hi (t - 1) self (ser\<lparr>rx := rest, sent := sent ser @ [command_soc]\<rparr>)"
  using assms
  by (subst read_soc_while.simps)
     (auto simp add: read_bus_data_daly_1 unpack_hhhh be_s16_raw soc_current_def
        CURRENT_ZERO_CONSTANT_def)

lemma read_soc_while_0: "read_soc_while cfg lo hi 0 self ser = (Return False, self, ser)"
  by (subst read_soc_while.simps) simp

lemma read_soc_data_first:
  assumes "rx ser = d # rest" "8 \<le> length d" "soc_current cfg d = Inr c" "crnt_valid cfg c"
  shows "read_soc_data cfg self ser =
     (Return True, soc_accepted self d c, ser\<lparr>rx := rest, sent := sent ser @ [command_soc]\<rparr>)"
  unfolding read_soc_data_def Let_def
  by (rule read_soc_while_accept) (use assms in \<open>simp_all add: crnt_valid_def\<close>)


lemma read_soc_data_twice_rejected:
  assumes "rx ser = d1 # d2 # rest" "8 \<le> length d1" "soc_current cfg d1 = Inr c1"
    "\<not> crnt_valid cfg c1" "8 \<le> length d2" "soc_current cfg d2 = Inr c2" "\<not> crnt_valid cfg c2"
  shows "read_soc_data cfg self ser =
     (Return False, self, ser\<lparr>rx := rest, sent := sent ser @ [command_soc, command_soc]\<rparr>)"
proof -
  define lo where "lo = fneg (fmul (MAX_BATTERY_DISCHARGE_CURRENT cfg) (float_literal 21 10))"
  define hi where "hi = fmul (MAX_BATTERY_CHARGE_CURRENT cfg) (float_literal 13 10)"
  define ser1 where "ser1 = ser\<lparr>rx := d2 # rest, sent := sent ser @ [command_soc]\<rparr>"
  have rej1: "\<not> (flt lo c1 \<and> flt c1 hi)" and rej2: "\<not> (flt lo c2 \<and> flt c2 hi)"
    using assms(4,7) by (simp_all add: lo_def hi_def crnt_valid_def)
  have "read_soc_while cfg lo hi 2 self ser = read_soc_while cfg lo hi 1 self ser1"
    using read_soc_while_reject [of 2 ser d1 "d2 # rest" cfg c1 lo hi self] assms(1,2,3) rej1
    by (simp add: ser1_def)
  also have "\<dots> = read_soc_while cfg lo hi 0 self
                     (ser1\<lparr>rx := rest, sent := sent ser1 @ [command_soc]\<rparr>)"
    using read_soc_while_reject [of 1 ser1 d2 rest cfg c2 lo hi self] assms(5,6) rej2
    by (simp add: ser1_def)
  finally show ?thesis by (simp add: read_soc_data_def lo_def hi_def ser1_def read_soc_while_0)
qed

lemma example_soc_current: "soc_current example_config [2, 8, 0, 0, 117, 98, 1, 244] = Inr (truediv (- 5) 1)"
  by (simp add: soc_current_def example_config_def raw_u16_def as_signed16_def float_eval)

lemma example_crnt_valid: "crnt_valid example_config (truediv (- 5) 1)"
  by (simp add: crnt_valid_def example_config_def float_eval)

lemma example_soc_current_high: "soc_current example_config [2, 8, 0, 0, 0, 0, 1, 244] = Inr (truediv 3000 1)"
  by (simp add: soc_current_def example_config_def raw_u16_def as_signed16_def float_eval)

lemma example_crnt_invalid: "\<not> crnt_valid example_config (truediv 3000 1)"
  by (simp add: crnt_valid_def example_config_def float_eval)







subsection \<open>What every decoder leaves alone\<close>

lemma read_bus_data_daly_sent:
  "read_bus_data_daly bus c n = (r, bus') \<Longrightarrow> sent bus' = sent bus @ [c]"
  by (auto simp: read_bus_data_daly_def send_def Let_def split: prod.splits outcome.splits)

lemmas reader_splits = prod.splits outcome.splits response.splits sum.splits list.splits pyval.splits

lemma read_fed_data_frame:
  "read_fed_data self ser = (r, self', ser') \<Longrightarrow>
     same_ctl self' self \<and> sent ser' = sent ser @ [command_fet]"
  unfolding read_fed_data_def same_ctl_def
  by (auto split: reader_splits dest: read_bus_data_daly_sent)

lemma read_alarm_data_frame:
  "read_alarm_data self ser = (r, self', ser') \<Longrightarrow>
     same_ctl self' self \<and> sent ser' = sent ser @ [command_alarm]"
  unfolding read_alarm_data_def same_ctl_def
  by (auto split: reader_splits dest: read_bus_data_daly_sent)

lemma read_cell_voltage_range_data_frame:
  "read_cell_voltage_range_data self ser = (r, self', ser') \<Longrightarrow>
     same_ctl self' self \<and> sent ser' = sent ser @ [command_minmax_cell_volts]"
  unfolding read_cell_voltage_range_data_def same_ctl_def
  by (auto split: reader_splits dest: read_bus_data_daly_sent)

lemma read_temperature_range_data_frame:
  "read_temperature_range_data self ser = (r, self', ser') \<Longrightarrow>
     same_ctl self' self \<and> sent ser' = sent ser @ [command_minmax_temp]"
  unfolding read_temperature_range_data_def same_ctl_def
  by (auto split: reader_splits dest: read_bus_data_daly_sent)

lemma read_cells_volts_frame:
  "read_cells_volts cfg self ser = (r, self', ser') \<Longrightarrow>
     same_ctl self' self \<and>
     sent ser' = sent ser @ (if cell_count self = None then [] else [command_cell_volts])"
  unfolding read_cells_volts_def same_ctl_def Let_def
  by (auto split: option.splits prod.splits outcome.splits response.splits if_splits
           dest: read_bus_data_daly_sent)

lemma read_soc_while_step:
  assumes "0 < t" and "read_soc_while cfg lo hi t self ser = (r, self', ser')"
  shows "\<exists>ser1. sent ser1 = sent ser @ [command_soc] \<and>
           (same_ctl self' self \<and> ser' = ser1 \<and> (r \<noteq> Return True \<longrightarrow> self' = self) \<or>
            read_soc_while cfg lo hi (t - 1) self ser1 = (r, self', ser'))"
  using assms
  apply (subst (asm) read_soc_while.simps)
  apply (auto simp: Let_def same_ctl_def split: if_splits reader_splits
              dest: read_bus_data_daly_sent)
  done

lemma read_soc_data_frame:
  assumes "read_soc_data cfg self ser = (r, self', ser')"
  shows "same_ctl self' self \<and> (r \<noteq> Return True \<longrightarrow> self' = self) \<and>
     (sent ser' = sent ser @ [command_soc] \<or> sent ser' = sent ser @ [command_soc, command_soc])"
proof -
  define lo where "lo = fneg (fmul (MAX_BATTERY_DISCHARGE_CURRENT cfg) (float_literal 21 10))"
  define hi where "hi = fmul (MAX_BATTERY_CHARGE_CURRENT cfg) (float_literal 13 10)"
  have w2: "read_soc_while cfg lo hi 2 self ser = (r, self', ser')"
    using assms by (simp add: read_soc_data_def lo_def hi_def)
  from read_soc_while_step [OF _ w2] obtain ser1 where
    s1: "sent ser1 = sent ser @ [command_soc]" and
    c1: "same_ctl self' self \<and> ser' = ser1 \<and> (r \<noteq> Return True \<longrightarrow> self' = self) \<or>
         read_soc_while cfg lo hi 1 self ser1 = (r, self', ser')"
    by auto
  from c1 show ?thesis
  proof
    assume "same_ctl self' self \<and> ser' = ser1 \<and> (r \<noteq> Return True \<longrightarrow> self' = self)"
    with s1 show ?thesis by simp
  next
    assume w1: "read_soc_while cfg lo hi 1 self ser1 = (r, self', ser')"
    from read_soc_while_step [OF _ w1] obtain ser2 where
      s2: "sent ser2 = sent ser1 @ [command_soc]" and
      c2: "same_ctl self' self \<and> ser' = ser2 \<and> (r \<noteq> Return True \<longrightarrow> self' = self) \<or>
           read_soc_while cfg lo hi 0 self ser2 = (r, self', ser')"
      by auto
    from c2 show ?thesis
    proof
      assume "same_ctl self' self \<and> ser' = ser2 \<and> (r \<noteq> Return True \<longrightarrow> self' = self)"
      with s1 s2 show ?thesis by simp
    next
      assume "read_soc_while cfg lo hi 0 self ser2 = (r, self', ser')"
      then have "self' = self" "ser' = ser2" by (simp_all add: read_soc_while_0)
      with s1 s2 show ?thesis by (simp add: same_ctl_def)
    qed
  qed
qed


text \<open>
  C3. When the two SOC payloads that the bus delivers (each of at least 8 bytes) both
  decode to a physical current that is not strictly between the bounds, \<open>read_soc_data\<close>
  returns False after two requests and leaves the model as it was. Whatever the bus
  delivers, \<open>read_soc_data\<close> sends at most two requests, and the model (\<open>voltage\<close>,
  \<open>current\<close> and \<open>soc\<close> included) is as it was unless the call returns True.
\<close>

theorem read_soc_data_rejects_twice:
  "(rx ser = d1 # d2 # rest \<and>
    8 \<le> length d1 \<and> soc_current cfg d1 = Inr c1 \<and> \<not> crnt_valid cfg c1 \<and>
    8 \<le> length d2 \<and> soc_current cfg d2 = Inr c2 \<and> \<not> crnt_valid cfg c2 \<longrightarrow>
      read_soc_data cfg self ser =
        (Return False, self, ser\<lparr>rx := rest, sent := sent ser @ [command_soc, command_soc]\<rparr>)) \<and>
   length (new_requests ser (bus_of (read_soc_data cfg self ser))) \<le> 2 \<and>
   (outcome_of (read_soc_data cfg self ser) \<noteq> Return True \<longrightarrow>
      model_of (read_soc_data cfg self ser) = self)"
proof -
  obtain r self' ser' where res: "read_soc_data cfg self ser = (r, self', ser')"
    by (cases "read_soc_data cfg self ser")
  from read_soc_data_frame [OF res]
  have "length (new_requests ser ser') \<le> 2" and "r \<noteq> Return True \<longrightarrow> self' = self"
    by (auto simp: new_requests_def)
  then show ?thesis
    using read_soc_data_twice_rejected [of ser d1 d2 rest cfg c1 c2 self] res
    by (simp add: outcome_of_def model_of_def bus_of_def)
qed

theorem read_soc_data_rejects_twice_witness:
  "read_soc_data example_config init_battery
       \<lparr>rx = [[2, 8, 0, 0, 0, 0, 1, 244], [2, 8, 0, 0, 0, 0, 1, 244], [1]], sent = []\<rparr> =
     (Return False, init_battery, \<lparr>rx = [[1]], sent = [command_soc, command_soc]\<rparr>) \<and>
   outcome_of (read_soc_data example_config init_battery
       \<lparr>rx = [[2, 8, 0, 0, 0, 0, 1, 244], [2, 8, 0, 0, 0, 0, 1, 244], [1]], sent = []\<rparr>)
     \<noteq> Return True \<and>
   model_of (read_soc_data example_config init_battery
       \<lparr>rx = [[2, 8, 0, 0, 0, 0, 1, 244], [2, 8, 0, 0, 0, 0, 1, 244], [1]], sent = []\<rparr>)
     = init_battery"
  using read_soc_data_rejects_twice
      [of "\<lparr>rx = [[2, 8, 0, 0, 0, 0, 1, 244], [2, 8, 0, 0, 0, 0, 1, 244], [1]], sent = []\<rparr>"
          "[2, 8, 0, 0, 0, 0, 1, 244]" "[2, 8, 0, 0, 0, 0, 1, 244]" "[[1]]"
          example_config "truediv 3000 1" "truediv 3000 1" init_battery]
  by (simp add: example_soc_current_high example_crnt_invalid outcome_of_def model_of_def)

subsection \<open>Short payloads\<close>

lemma unpack_from_empty:
  "unpack_from ''>hhhh'' [] 0 = Inl StructError"
  "unpack_from ''>bb??bhx'' [] 0 = Inl StructError"
  "unpack_from ''>b??BL'' [] 0 = Inl StructError"
  "unpack_from ''>bbbbbbbb'' [] 0 = Inl StructError"
  "unpack_from ''>hbhb'' [] 0 = Inl StructError"
  "unpack_from ''>bbbb'' [] 0 = Inl StructError"
  by (simp_all add: unpack_from_def calcsize_def)

lemma init_battery_simps:
  "cell_count init_battery = None" "cells init_battery = []" "poll_step init_battery = 0"
  "error_active init_battery = False" "last_error_time init_battery = Finite 0 0"
  "device_address init_battery = 0"
  by (simp_all add: init_battery_def)

lemma read_bus_data_daly_6:
  "rx bus = [m1, m2, m3, m4, m5, m6] @ rest \<Longrightarrow>
     read_bus_data_daly bus c 6 =
       (Return (Bytes (m1 @ m2 @ m3 @ m4 @ m5 @ m6)), bus\<lparr>rx := rest, sent := sent bus @ [c]\<rparr>)"
  by (simp add: read_bus_data_daly_def send_def)

lemma empty_status: "read_status_data init_battery \<lparr>rx = [[]], sent = []\<rparr> =
     (Raise StructError, init_battery, \<lparr>rx = [], sent = [command_status]\<rparr>)"
  by (simp add: read_status_data_def read_bus_data_daly_1 unpack_from_empty)

lemma empty_soc: "read_soc_data example_config init_battery \<lparr>rx = [[]], sent = []\<rparr> =
     (Raise StructError, init_battery, \<lparr>rx = [], sent = [command_soc]\<rparr>)"
  by (simp add: read_soc_data_def read_soc_while.simps read_bus_data_daly_1 unpack_from_empty)

lemma empty_fet: "read_fed_data init_battery \<lparr>rx = [[]], sent = []\<rparr> =
     (Raise StructError, init_battery, \<lparr>rx = [], sent = [command_fet]\<rparr>)"
  by (simp add: read_fed_data_def read_bus_data_daly_1 unpack_from_empty)

lemma empty_alarm: "read_alarm_data init_battery \<lparr>rx = [[]], sent = []\<rparr> =
     (Raise StructError, init_battery, \<lparr>rx = [], sent = [command_alarm]\<rparr>)"
  by (simp add: read_alarm_data_def read_bus_data_daly_1 unpack_from_empty)

lemma empty_minmax: "read_cell_voltage_range_data init_battery \<lparr>rx = [[]], sent = []\<rparr> =
     (Raise StructError, init_battery, \<lparr>rx = [], sent = [command_minmax_cell_volts]\<rparr>)"
  by (simp add: read_cell_voltage_range_data_def read_bus_data_daly_1 unpack_from_empty)

lemma empty_temp: "read_temperature_range_data init_battery \<lparr>rx = [[]], sent = []\<rparr> =
     (Raise StructError, init_battery, \<lparr>rx = [], sent = [command_minmax_temp]\<rparr>)"
  by (simp add: read_temperature_range_data_def read_bus_data_daly_1 unpack_from_empty)

lemma empty_cells: "read_cells_volts example_config (init_battery\<lparr>cell_count := Some 4\<rparr>)
       \<lparr>rx = [[], [], [], [], [], []], sent = []\<rparr> =
     (Return True,
      init_battery\<lparr>cell_count := Some 4, cells := replicate 4 (Cell_True example_config)\<rparr>,
      \<lparr>rx = [], sent = [command_cell_volts]\<rparr>)"
  using read_bus_data_daly_6 [of "\<lparr>rx = [[], [], [], [], [], []], sent = []\<rparr>" "[]" "[]" "[]" "[]" "[]" "[]" "[]" command_cell_volts]
  by (simp add: read_cells_volts_def cells_while.simps init_battery_simps)

lemma short_cells: "read_cells_volts example_config (init_battery\<lparr>cell_count := Some 4\<rparr>)
       \<lparr>rx = [[1, 12, 228], [], [], [], [], []], sent = []\<rparr> =
     (Raise StructError,
      init_battery\<lparr>cell_count := Some 4, cells := replicate 4 (Cell_True example_config)\<rparr>,
      \<lparr>rx = [], sent = [command_cell_volts]\<rparr>)"
  using read_bus_data_daly_6 [of "\<lparr>rx = [[1, 12, 228], [], [], [], [], []], sent = []\<rparr>" "[1, 12, 228]" "[]" "[]" "[]" "[]" "[]" "[]" command_cell_volts]
  by (simp add: read_cells_volts_def cells_while.simps init_battery_simps unpack_from_def calcsize_def)


text \<open>
  C2. The claim asks every decoder to return False on a payload shorter than its layout
  and to leave the model alone. \<open>read_bus_data_daly\<close> never returns \<open>False\<close>, so the
  test \<open>is False\<close> of each decoder never holds and the short payload reaches
  \<open>unpack_from\<close>: on a frame without data bytes the status, SOC, FET, alarm, cell-range
  and temperature-range decoders raise \<open>struct.error\<close>; \<open>read_cells_volts\<close> returns True on
  six such frames, and raises \<open>struct.error\<close> on a frame of three bytes, in both cases
  after it has replaced the cell list.
\<close>

theorem short_payload_raises:
  "read_status_data init_battery \<lparr>rx = [[]], sent = []\<rparr> =
     (Raise StructError, init_battery, \<lparr>rx = [], sent = [command_status]\<rparr>) \<and>
   read_soc_data example_config init_battery \<lparr>rx = [[]], sent = []\<rparr> =
     (Raise StructError, init_battery, \<lparr>rx = [], sent = [command_soc]\<rparr>) \<and>
   read_fed_data init_battery \<lparr>rx = [[]], sent = []\<rparr> =
     (Raise StructError, init_battery, \<lparr>rx = [], sent = [command_fet]\<rparr>) \<and>
   read_alarm_data init_battery \<lparr>rx = [[]], sent = []\<rparr> =
     (Raise StructError, init_battery, \<lparr>rx = [], sent = [command_alarm]\<rparr>) \<and>
   read_cell_voltage_range_data init_battery \<lparr>rx = [[]], sent = []\<rparr> =
     (Raise StructError, init_battery, \<lparr>rx = [], sent = [command_minmax_cell_volts]\<rparr>) \<and>
   read_temperature_range_data init_battery \<lparr>rx = [[]], sent = []\<rparr> =
     (Raise StructError, init_battery, \<lparr>rx = [], sent = [command_minmax_temp]\<rparr>) \<and>
   read_cells_volts example_config (init_battery\<lparr>cell_count := Some 4\<rparr>)
       \<lparr>rx = [[], [], [], [], [], []], sent = []\<rparr> =
     (Return True,
      init_battery\<lparr>cell_count := Some 4, cells := replicate 4 (Cell_True example_config)\<rparr>,
      \<lparr>rx = [], sent = [command_cell_volts]\<rparr>) \<and>
   read_cells_volts example_config (init_battery\<lparr>cell_count := Some 4\<rparr>)
       \<lparr>rx = [[1, 12, 228], [], [], [], [], []], sent = []\<rparr> =
     (Raise StructError,
      init_battery\<lparr>cell_count := Some 4, cells := replicate 4 (Cell_True example_config)\<rparr>,
      \<lparr>rx = [], sent = [command_cell_volts]\<rparr>)"
  using empty_status empty_soc empty_fet empty_alarm empty_minmax empty_temp empty_cells
    short_cells
  by simp

subsection \<open>The two status decoders\<close>

lemma bad_format: "unpack_from ''>BB??BHX'' d 0 = Inl StructError"
  by (simp add: unpack_from_def)

lemma status_frames: "map_of CAN_FRAMES COMMAND_STATUS = Some [0x18940140]"
  by (simp add: CAN_FRAMES_def COMMAND_STATUS_def)

lemma status_sync: "read_status_data init_battery \<lparr>rx = [[16, 2, 1, 1, 0, 0, 5, 0]], sent = []\<rparr> =
     (Return True,
      init_battery\<lparr>cell_count := Some 16, temp_sensors := Some 2, charger_connected := Some True,
         load_connected := Some True, history := \<lparr>charge_cycles = Some 5\<rparr>,
         hardware_version := Some ''DalyBMS 16S''\<rparr>,
      \<lparr>rx = [], sent = [command_status]\<rparr>)"
  by (simp add: read_status_data_def read_bus_data_daly_1 unpack_from_def calcsize_def
       be_s16_def be_u16_def str_def init_battery_def)

lemma status_cache: "read_daly_can (float_literal 1000 1) [(0x18940140, [16, 2, 1, 1, 0, 0, 5, 0])] init_battery
   = (Raise StructError, init_battery)"
  by (simp add: read_daly_can_def status_frames bad_format init_battery_simps)

text \<open>
  C9. The claim asks both ingestion paths to decode a status payload to the same values.
  On the payload \<open>16, 2, 1, 1, 0, 0, 5, 0\<close> the request/response path
  (\<open>read_status_data\<close>, format \<open>>bb??bhx\<close>) stores 16 cells, 2 sensors, both flags true
  and 5 cycles and returns True; the cache path (\<open>read_daly_can\<close>) unpacks with
  \<open>>BB??BHX\<close>, whose last character is no format character of \<open>struct\<close>, so it raises
  \<open>struct.error\<close> on every cached status frame and stores nothing.
\<close>

theorem status_paths_diverge:
  "read_status_data init_battery \<lparr>rx = [[16, 2, 1, 1, 0, 0, 5, 0]], sent = []\<rparr> =
     (Return True,
      init_battery\<lparr>cell_count := Some 16, temp_sensors := Some 2, charger_connected := Some True,
         load_connected := Some True, history := \<lparr>charge_cycles = Some 5\<rparr>,
         hardware_version := Some ''DalyBMS 16S''\<rparr>,
      \<lparr>rx = [], sent = [command_status]\<rparr>) \<and>
   read_daly_can (float_literal 1000 1) [(0x18940140, [16, 2, 1, 1, 0, 0, 5, 0])] init_battery =
     (Raise StructError, init_battery)"
  using status_sync status_cache by simp

subsection \<open>The poll cycle\<close>

lemma and_then_eq:
  "and_then (ro, s, b) f = (if ro = Return True then f s b else (ro, s, b))"
  by (simp add: and_then_def split: outcome.splits bool.splits)

lemma optional_read_frame:
  assumes "optional_read cfg step s b = (r, s', b')"
  shows "same_ctl s' s \<and> sent b' = sent b @ optional_requests step (cell_count s)"
proof -
  consider "step = 0" | "step = 1" | "step = 2" | "step = 3" | "step \<notin> {0, 1, 2, 3}" by auto
  then show ?thesis
  proof cases
    case 1 then show ?thesis
      using assms read_cell_voltage_range_data_frame [of s b r s' b']
      by (simp add: optional_read_def optional_requests_def)
  next
    case 2 then show ?thesis
      using assms read_alarm_data_frame [of s b r s' b']
      by (simp add: optional_read_def optional_requests_def)
  next
    case 3 then show ?thesis
      using assms read_cells_volts_frame [of cfg s b r s' b']
      by (simp add: optional_read_def optional_requests_def)
  next
    case 4 then show ?thesis
      using assms read_temperature_range_data_frame [of s b r s' b']
      by (simp add: optional_read_def optional_requests_def)
  next
    case 5 then show ?thesis
      using assms by (auto simp: optional_read_def optional_requests_def same_ctl_def)
  qed
qed

lemma refresh_data_alt:
  "refresh_data cfg self bus =
     (case and_then (read_soc_data cfg self bus) read_fed_data of
        (Return result, s2, b2) \<Rightarrow>
          (case and_then (Return result, s2, b2) (optional_read cfg (poll_step s2)) of
             (Return result, s, b) \<Rightarrow>
               (Return result,
                s\<lparr>poll_step := (if poll_step s2 = 3 then - 1 else poll_step s) + 1\<rparr>, b)
           | r \<Rightarrow> r)
      | r \<Rightarrow> r)"
proof -
  obtain o2 s2 b2 where r2: "and_then (read_soc_data cfg self bus) read_fed_data = (o2, s2, b2)"
    by (cases "and_then (read_soc_data cfg self bus) read_fed_data")
  show ?thesis
  proof (cases o2)
    case (Return result)
    consider "poll_step s2 = 0" | "poll_step s2 = 1" | "poll_step s2 = 2" | "poll_step s2 = 3"
      | "poll_step s2 \<notin> {0, 1, 2, 3}" by auto
    then show ?thesis
    proof cases
      case 1 then show ?thesis
        by (simp add: refresh_data_def r2 Return optional_read_def and_then_eq
              split: prod.splits outcome.splits)
    next
      case 2 then show ?thesis
        by (simp add: refresh_data_def r2 Return optional_read_def and_then_eq
              split: prod.splits outcome.splits)
    next
      case 3 then show ?thesis
        by (simp add: refresh_data_def r2 Return optional_read_def and_then_eq
              split: prod.splits outcome.splits)
    next
      case 4 then show ?thesis
        by (simp add: refresh_data_def r2 Return optional_read_def and_then_eq
              split: prod.splits outcome.splits)
    next
      case 5 then show ?thesis
        by (simp add: refresh_data_def r2 Return optional_read_def and_then_eq
              split: prod.splits outcome.splits)
    qed
  next
    case (Raise e) then show ?thesis by (simp add: refresh_data_def r2)
  next
    case Blocked then show ?thesis by (simp add: refresh_data_def r2)
  qed
qed

text \<open>
  One invocation, stage by stage: the SOC read, the FET read if the SOC read returned
  True, the optional read if both returned True.
\<close>

lemma refresh_data_stages:
  assumes "refresh_data cfg self bus = (r, s', b')"
  obtains o1 s1 b1 o2 s2 b2 o3 s3 b3 where
    "read_soc_data cfg self bus = (o1, s1, b1)"
    "same_ctl s1 self"
    "sent b1 = sent bus @ [command_soc] \<or> sent b1 = sent bus @ [command_soc, command_soc]"
    "same_ctl s2 s1"
    "if o1 = Return True then sent b2 = sent b1 @ [command_fet]
     else o2 = o1 \<and> s2 = s1 \<and> b2 = b1"
    "same_ctl s3 s2"
    "if o2 = Return True
     then sent b3 = sent b2 @ optional_requests (poll_step self) (cell_count self)
     else o3 = o2 \<and> s3 = s2 \<and> b3 = b2"
    "r = o3" "b' = b3"
    "s' = (case o3 of Return x \<Rightarrow>
             s3\<lparr>poll_step := (if poll_step self = 3 then 0 else poll_step self + 1)\<rparr>
           | _ \<Rightarrow> s3)"
proof -
  obtain o1 s1 b1 where r1: "read_soc_data cfg self bus = (o1, s1, b1)"
    by (cases "read_soc_data cfg self bus")
  obtain o2 s2 b2 where r2: "and_then (o1, s1, b1) read_fed_data = (o2, s2, b2)"
    by (cases "and_then (o1, s1, b1) read_fed_data")
  obtain o3 s3 b3 where
    r3: "and_then (o2, s2, b2) (optional_read cfg (poll_step s2)) = (o3, s3, b3)"
    by (cases "and_then (o2, s2, b2) (optional_read cfg (poll_step s2))")
  from read_soc_data_frame [OF r1]
  have f1: "same_ctl s1 self"
    "sent b1 = sent bus @ [command_soc] \<or> sent b1 = sent bus @ [command_soc, command_soc]"
    by simp_all
  have f2: "same_ctl s2 s1"
    "if o1 = Return True then sent b2 = sent b1 @ [command_fet]
     else o2 = o1 \<and> s2 = s1 \<and> b2 = b1"
    using r2 read_fed_data_frame [of s1 b1 o2 s2 b2]
    by (auto simp: and_then_eq same_ctl_def split: if_splits)
  have f3: "same_ctl s3 s2"
    "if o2 = Return True
     then sent b3 = sent b2 @ optional_requests (poll_step s2) (cell_count s2)
     else o3 = o2 \<and> s3 = s2 \<and> b3 = b2"
    using r3 optional_read_frame [of cfg "poll_step s2" s2 b2 o3 s3 b3]
    by (auto simp: and_then_eq same_ctl_def split: if_splits)
  have ctl: "poll_step s2 = poll_step self" "cell_count s2 = cell_count self"
    "poll_step s3 = poll_step self"
    using f1(1) f2(1) f3(1) by (simp_all add: same_ctl_def)
  have "refresh_data cfg self bus =
      (case o3 of Return x \<Rightarrow>
         (Return x, s3\<lparr>poll_step := (if poll_step s2 = 3 then - 1 else poll_step s3) + 1\<rparr>, b3)
       | _ \<Rightarrow> (o3, s3, b3))"
  proof (cases o2)
    case (Return result)
    with r3 have "and_then (Return result, s2, b2) (optional_read cfg (poll_step s2)) =
        (o3, s3, b3)"
      by simp
    then show ?thesis
      unfolding refresh_data_alt r1 r2 Return by (simp split: outcome.splits)
  next
    case (Raise e)
    with f3(2) have "o3 = Raise e" "s3 = s2" "b3 = b2" by simp_all
    then show ?thesis
      unfolding refresh_data_alt r1 r2 Raise by simp
  next
    case Blocked
    with f3(2) have "o3 = Blocked" "s3 = s2" "b3 = b2" by simp_all
    then show ?thesis
      unfolding refresh_data_alt r1 r2 Blocked by simp
  qed
  with assms have fin: "(r, s', b') =
      (case o3 of Return x \<Rightarrow>
         (Return x, s3\<lparr>poll_step := (if poll_step s2 = 3 then - 1 else poll_step s3) + 1\<rparr>, b3)
       | _ \<Rightarrow> (o3, s3, b3))"
    by simp
  have g3: "if o2 = Return True
     then sent b3 = sent b2 @ optional_requests (poll_step self) (cell_count self)
     else o3 = o2 \<and> s3 = s2 \<and> b3 = b2"
    using f3(2) ctl by simp
  have g4: "r = o3" "b' = b3"
    "s' = (case o3 of Return x \<Rightarrow>
             s3\<lparr>poll_step := (if poll_step self = 3 then 0 else poll_step self + 1)\<rparr>
           | _ \<Rightarrow> s3)"
    using fin ctl by (auto split: outcome.splits)
  show ?thesis
    by (rule that [OF r1 f1(1) f1(2) f2(1) f2(2) f3(1) g3 g4(1) g4(2) g4(3)])
qed

lemma refresh_data_ctl:
  assumes "refresh_data cfg self bus = (r, s', b')"
  shows "error_active s' = error_active self" "last_error_time s' = last_error_time self"
    "cell_count s' = cell_count self"
    "r = Return x \<Longrightarrow> poll_step s' = (if poll_step self = 3 then 0 else poll_step self + 1)"
  using assms
  by (elim refresh_data_stages; auto simp: same_ctl_def split: outcome.splits)+

lemma refresh_data_requests:
  assumes "refresh_data cfg self bus = (r, s', b')"
  shows "take 1 (new_requests bus b') = [command_soc]"
    "command_fet \<in> set (new_requests bus b') \<longleftrightarrow>
       outcome_of (read_soc_data cfg self bus) = Return True"
    "r = Return True \<Longrightarrow>
       filter is_optional (new_requests bus b') =
         optional_requests (poll_step self) (cell_count self)"
  using assms
  by (elim refresh_data_stages;
      auto simp: new_requests_def outcome_of_def optional_requests_def is_optional_def
           split: if_splits)+

text \<open>A payload of at least 8 bytes is decoded by the FET, cell-range, alarm and
  temperature-range decoders, which return True.\<close>

lemma read_fed_data_ok:
  assumes "rx ser = d # rest" "8 \<le> length d"
  shows "\<exists>s. read_fed_data self ser =
           (Return True, s, ser\<lparr>rx := rest, sent := sent ser @ [command_fet]\<rparr>)"
proof -
  from length_ge_8E [OF assms(2)] obtain b0 b1 b2 b3 b4 b5 b6 b7 bs
    where d: "d = b0 # b1 # b2 # b3 # b4 # b5 # b6 # b7 # bs" by blast
  show ?thesis
    using assms(1)
    by (simp add: read_fed_data_def read_bus_data_daly_1 d unpack_from_def calcsize_def)
qed

lemma read_cell_voltage_range_data_ok:
  assumes "rx ser = d # rest" "8 \<le> length d"
  shows "\<exists>s. read_cell_voltage_range_data self ser =
           (Return True, s, ser\<lparr>rx := rest, sent := sent ser @ [command_minmax_cell_volts]\<rparr>)"
proof -
  from length_ge_8E [OF assms(2)] obtain b0 b1 b2 b3 b4 b5 b6 b7 bs
    where d: "d = b0 # b1 # b2 # b3 # b4 # b5 # b6 # b7 # bs" by blast
  show ?thesis
    using assms(1)
    by (simp add: read_cell_voltage_range_data_def read_bus_data_daly_1 d unpack_from_def
          calcsize_def)
qed

lemma read_temperature_range_data_ok:
  assumes "rx ser = d # rest" "8 \<le> length d"
  shows "\<exists>s. read_temperature_range_data self ser =
           (Return True, s, ser\<lparr>rx := rest, sent := sent ser @ [command_minmax_temp]\<rparr>)"
proof -
  from length_ge_8E [OF assms(2)] obtain b0 b1 b2 b3 b4 b5 b6 b7 bs
    where d: "d = b0 # b1 # b2 # b3 # b4 # b5 # b6 # b7 # bs" by blast
  show ?thesis
    using assms(1)
    by (simp add: read_temperature_range_data_def read_bus_data_daly_1 d unpack_from_def
          calcsize_def)
qed

lemma read_alarm_data_ok:
  assumes "rx ser = d # rest" "8 \<le> length d"
  shows "\<exists>s. read_alarm_data self ser =
           (Return True, s, ser\<lparr>rx := rest, sent := sent ser @ [command_alarm]\<rparr>)"
proof -
  from length_ge_8E [OF assms(2)] obtain b0 b1 b2 b3 b4 b5 b6 b7 bs
    where d: "d = b0 # b1 # b2 # b3 # b4 # b5 # b6 # b7 # bs" by blast
  show ?thesis
    using assms(1)
    by (simp add: read_alarm_data_def read_bus_data_daly_1 d unpack_from_def calcsize_def)
qed

lemma soc_frame_ok:
  "8 \<le> length soc_frame" "soc_current example_config soc_frame = Inr (truediv (- 5) 1)"
  by (simp_all add: soc_frame_def example_soc_current)

lemma frames_length:
  "8 \<le> length fet_frame" "8 \<le> length range_frame" "8 \<le> length alarm_frame"
  "8 \<le> length temp_frame"
  by (simp_all add: fet_frame_def range_frame_def alarm_frame_def temp_frame_def)

lemma soc_fet_ok:
  assumes "rx bus = soc_frame # f # rest" "8 \<le> length f"
  shows "\<exists>s. and_then (read_soc_data example_config self bus) read_fed_data =
           (Return True, s, bus\<lparr>rx := rest, sent := sent bus @ [command_soc, command_fet]\<rparr>)"
proof -
  have "read_soc_data example_config self bus =
      (Return True, soc_accepted self soc_frame (truediv (- 5) 1),
       bus\<lparr>rx := f # rest, sent := sent bus @ [command_soc]\<rparr>)"
    by (rule read_soc_data_first [OF assms(1) soc_frame_ok example_crnt_valid])
  moreover from read_fed_data_ok [of "bus\<lparr>rx := f # rest, sent := sent bus @ [command_soc]\<rparr>" f rest
      "soc_accepted self soc_frame (truediv (- 5) 1)"] assms(2)
  obtain s where "read_fed_data (soc_accepted self soc_frame (truediv (- 5) 1))
        (bus\<lparr>rx := f # rest, sent := sent bus @ [command_soc]\<rparr>) =
      (Return True, s, bus\<lparr>rx := rest, sent := sent bus @ [command_soc, command_fet]\<rparr>)"
    by auto
  ultimately show ?thesis by (simp add: and_then_eq)
qed

lemma cycle_ok:
  assumes "rx bus = soc_frame # f # p # rest" "8 \<le> length f" "8 \<le> length p"
    "poll_step self = 0 \<or> poll_step self = 1 \<or> poll_step self = 3"
  shows "\<exists>s. refresh_data example_config self bus =
           (Return True, s,
            bus\<lparr>rx := rest,
                sent := sent bus @ [command_soc, command_fet] @
                  optional_requests (poll_step self) (cell_count self)\<rparr>)"
proof -
  from soc_fet_ok [OF assms(1,2)] obtain s2 where
    r2: "and_then (read_soc_data example_config self bus) read_fed_data =
       (Return True, s2, bus\<lparr>rx := p # rest, sent := sent bus @ [command_soc, command_fet]\<rparr>)"
    by blast
  obtain o1 s1 b1 where r1: "read_soc_data example_config self bus = (o1, s1, b1)"
    by (cases "read_soc_data example_config self bus")
  have o1: "o1 = Return True"
    using r2 r1 by (auto simp: and_then_eq split: if_splits)
  have "same_ctl s1 self" using read_soc_data_frame [OF r1] by simp
  moreover have "same_ctl s2 s1"
    using r2 r1 o1 read_fed_data_frame [of s1 b1 "Return True" s2] by (simp add: and_then_eq)
  ultimately have ps: "poll_step s2 = poll_step self" "cell_count s2 = cell_count self"
    by (simp_all add: same_ctl_def)
  let ?b2 = "bus\<lparr>rx := p # rest, sent := sent bus @ [command_soc, command_fet]\<rparr>"
  let ?b3 = "bus\<lparr>rx := rest, sent := sent bus @ [command_soc, command_fet] @
                  optional_requests (poll_step self) (cell_count self)\<rparr>"
  have "\<exists>s. optional_read example_config (poll_step self) s2 ?b2 = (Return True, s, ?b3)"
    using assms(4)
  proof (elim disjE)
    assume "poll_step self = 0"
    then show ?thesis
      using read_cell_voltage_range_data_ok [of ?b2 p rest s2] assms(3)
      by (simp add: optional_read_def optional_requests_def)
  next
    assume "poll_step self = 1"
    then show ?thesis
      using read_alarm_data_ok [of ?b2 p rest s2] assms(3)
      by (simp add: optional_read_def optional_requests_def)
  next
    assume "poll_step self = 3"
    then show ?thesis
      using read_temperature_range_data_ok [of ?b2 p rest s2] assms(3)
      by (simp add: optional_read_def optional_requests_def)
  qed
  then obtain s3 where
    r3: "optional_read example_config (poll_step self) s2 ?b2 = (Return True, s3, ?b3)"
    by blast
  show ?thesis
    unfolding refresh_data_alt r2 by (simp add: and_then_eq ps r3)
qed

lemma cycle_ok_unknown:
  assumes "rx bus = soc_frame # f # rest" "8 \<le> length f"
    "poll_step self = 2" "cell_count self = None"
  shows "\<exists>s. refresh_data example_config self bus =
           (Return True, s, bus\<lparr>rx := rest, sent := sent bus @ [command_soc, command_fet]\<rparr>)"
proof -
  from soc_fet_ok [OF assms(1,2)] obtain s2 where
    r2: "and_then (read_soc_data example_config self bus) read_fed_data =
       (Return True, s2, bus\<lparr>rx := rest, sent := sent bus @ [command_soc, command_fet]\<rparr>)"
    by blast
  obtain o1 s1 b1 where r1: "read_soc_data example_config self bus = (o1, s1, b1)"
    by (cases "read_soc_data example_config self bus")
  have o1: "o1 = Return True"
    using r2 r1 by (auto simp: and_then_eq split: if_splits)
  have "same_ctl s1 self" using read_soc_data_frame [OF r1] by simp
  moreover have "same_ctl s2 s1"
    using r2 r1 o1 read_fed_data_frame [of s1 b1 "Return True" s2] by (simp add: and_then_eq)
  ultimately have ps: "poll_step s2 = 2" "cell_count s2 = None"
    using assms(3,4) by (simp_all add: same_ctl_def)
  show ?thesis
    unfolding refresh_data_alt r2
    by (simp add: and_then_eq ps optional_read_def read_cells_volts_def)
qed

subsection \<open>The per-cell read while the cell count is unknown\<close>

text \<open>
  C10. While \<open>cell_count\<close> is \<open>None\<close>, \<open>read_cells_volts\<close> returns True, sends no request and
  leaves the model as it is. So an invocation of \<open>refresh_data\<close> at poll step 2 whose SOC
  and FET reads returned True returns True with the model and the bus as the FET read
  left them, \<open>poll_step\<close> advanced to 3: it reports success and no per-cell data was read.
\<close>

theorem read_cells_volts_unknown_count:
  "(cell_count self = None \<longrightarrow> read_cells_volts cfg self bus = (Return True, self, bus)) \<and>
   (cell_count self = None \<and> poll_step self = 2 \<and>
    and_then (read_soc_data cfg self bus) read_fed_data = (Return True, s2, b2) \<longrightarrow>
      refresh_data cfg self bus = (Return True, s2\<lparr>poll_step := 3\<rparr>, b2))"
proof (intro conjI impI)
  assume "cell_count self = None"
  then show "read_cells_volts cfg self bus = (Return True, self, bus)"
    by (simp add: read_cells_volts_def)
next
  assume a: "cell_count self = None \<and> poll_step self = 2 \<and>
    and_then (read_soc_data cfg self bus) read_fed_data = (Return True, s2, b2)"
  then have r2: "and_then (read_soc_data cfg self bus) read_fed_data = (Return True, s2, b2)"
    by simp
  obtain o1 s1 b1 where r1: "read_soc_data cfg self bus = (o1, s1, b1)"
    by (cases "read_soc_data cfg self bus")
  have o1: "o1 = Return True"
    using r2 r1 by (auto simp: and_then_eq split: if_splits)
  have "same_ctl s1 self" using read_soc_data_frame [OF r1] by simp
  moreover have "same_ctl s2 s1"
    using r2 r1 o1 read_fed_data_frame [of s1 b1 "Return True" s2 b2] by (simp add: and_then_eq)
  ultimately have ps: "poll_step s2 = 2" "cell_count s2 = None"
    using a by (simp_all add: same_ctl_def)
  show "refresh_data cfg self bus = (Return True, s2\<lparr>poll_step := 3\<rparr>, b2)"
    unfolding refresh_data_alt r2
    by (simp add: and_then_eq ps optional_read_def read_cells_volts_def)
qed

theorem read_cells_volts_unknown_count_witness:
  "cell_count (init_battery\<lparr>poll_step := 2\<rparr>) = None \<and>
   poll_step (init_battery\<lparr>poll_step := 2\<rparr>) = 2 \<and>
   read_cells_volts example_config (init_battery\<lparr>poll_step := 2\<rparr>)
       \<lparr>rx = [soc_frame, fet_frame], sent = []\<rparr> =
     (Return True, init_battery\<lparr>poll_step := 2\<rparr>, \<lparr>rx = [soc_frame, fet_frame], sent = []\<rparr>) \<and>
   (\<exists>s2. and_then (read_soc_data example_config (init_battery\<lparr>poll_step := 2\<rparr>)
                     \<lparr>rx = [soc_frame, fet_frame], sent = []\<rparr>) read_fed_data =
           (Return True, s2, \<lparr>rx = [], sent = [command_soc, command_fet]\<rparr>) \<and>
         refresh_data example_config (init_battery\<lparr>poll_step := 2\<rparr>)
             \<lparr>rx = [soc_frame, fet_frame], sent = []\<rparr> =
           (Return True, s2\<lparr>poll_step := 3\<rparr>, \<lparr>rx = [], sent = [command_soc, command_fet]\<rparr>))"
proof -
  let ?s = "init_battery\<lparr>poll_step := 2\<rparr>"
  let ?b = "\<lparr>rx = [soc_frame, fet_frame], sent = []\<rparr>"
  from soc_fet_ok [of ?b fet_frame "[]" ?s] obtain s2 where
    r2: "and_then (read_soc_data example_config ?s ?b) read_fed_data =
       (Return True, s2, \<lparr>rx = [], sent = [command_soc, command_fet]\<rparr>)"
    by (auto simp: frames_length)
  from read_cells_volts_unknown_count
    [of ?s example_config ?b s2 "\<lparr>rx = [], sent = [command_soc, command_fet]\<rparr>"] r2
  show ?thesis by (simp add: init_battery_simps)
qed

subsection \<open>The SOC and FET reads of an invocation\<close>

text \<open>
  C4 does not hold: \<open>refresh_data\<close> chains its reads with \<open>result and ...\<close>, so the FET
  read is skipped when the SOC read returned False. Two SOC payloads outside the bounds:
  two SOC requests, no FET request, the FET payload stays undelivered and the invocation
  returns False.
\<close>

theorem refresh_data_skips_fet_counterexample:
  "refresh_data example_config init_battery
       \<lparr>rx = [[2, 8, 0, 0, 0, 0, 1, 244], [2, 8, 0, 0, 0, 0, 1, 244], fet_frame], sent = []\<rparr> =
     (Return False, init_battery\<lparr>poll_step := 1\<rparr>,
      \<lparr>rx = [fet_frame], sent = [command_soc, command_soc]\<rparr>)"
proof -
  have "read_soc_data example_config init_battery
       \<lparr>rx = [[2, 8, 0, 0, 0, 0, 1, 244], [2, 8, 0, 0, 0, 0, 1, 244], fet_frame], sent = []\<rparr> =
     (Return False, init_battery, \<lparr>rx = [fet_frame], sent = [command_soc, command_soc]\<rparr>)"
    using read_soc_data_twice_rejected
      [of "\<lparr>rx = [[2, 8, 0, 0, 0, 0, 1, 244], [2, 8, 0, 0, 0, 0, 1, 244], fet_frame], sent = []\<rparr>"
          "[2, 8, 0, 0, 0, 0, 1, 244]" "[2, 8, 0, 0, 0, 0, 1, 244]" "[fet_frame]"
          example_config "truediv 3000 1" "truediv 3000 1" init_battery]
    by (simp add: example_soc_current_high example_crnt_invalid)
  then show ?thesis
    unfolding refresh_data_alt by (simp add: and_then_eq init_battery_simps)
qed

text \<open>
  C4, as amended. Every invocation of \<open>refresh_data\<close>, whatever \<open>poll_step\<close> is, starts
  with the SOC request, and it sends the FET request exactly when the SOC read returned
  True, whatever the FET read and the optional read then return.
\<close>

theorem refresh_data_soc_then_fet:
  "take 1 (new_requests bus (bus_of (refresh_data cfg self bus))) = [command_soc] \<and>
   (command_fet \<in> set (new_requests bus (bus_of (refresh_data cfg self bus))) \<longleftrightarrow>
      outcome_of (read_soc_data cfg self bus) = Return True)"
proof -
  obtain r s' b' where res: "refresh_data cfg self bus = (r, s', b')"
    by (cases "refresh_data cfg self bus")
  from refresh_data_requests(1,2) [OF res] show ?thesis
    by (simp add: res bus_of_def)
qed

subsection \<open>The error latch\<close>






subsection \<open>The round robin of the optional reads\<close>

lemma cells_while_frames:
  assumes "length cs = 4"
  shows "\<exists>cs'. cells_while lowMin 4
           ([1, 12, 228, 12, 229, 12, 230, 0] @ [2, 12, 231, 0, 0, 0, 0, 0] @
            [3, 0, 0, 0, 0, 0, 0, 0] @ [4, 0, 0, 0, 0, 0, 0, 0] @
            [5, 0, 0, 0, 0, 0, 0, 0] @ [6, 0, 0, 0, 0, 0, 0, 0]) 0 cs = (Return (), cs')"
  using assms
  by (simp add: cells_while.simps unpack_from_def calcsize_def py_index_def Let_def)

lemma read_cells_volts_ok:
  assumes "cell_count self = Some 4" "rx bus = cell_frames @ rest"
  shows "\<exists>s. read_cells_volts cfg self bus =
           (Return True, s, bus\<lparr>rx := rest, sent := sent bus @ [command_cell_volts]\<rparr>)"
proof -
  let ?cs = "if int (length (cells self)) \<noteq> 4 then replicate 4 (Cell_True cfg) else cells self"
  have "length ?cs = 4" by simp
  from cells_while_frames [OF this, of "float_div_int (MIN_CELL_VOLTAGE cfg) 2"]
  obtain cs' where cw: "cells_while (float_div_int (MIN_CELL_VOLTAGE cfg) 2) 4
           ([1, 12, 228, 12, 229, 12, 230, 0] @ [2, 12, 231, 0, 0, 0, 0, 0] @
            [3, 0, 0, 0, 0, 0, 0, 0] @ [4, 0, 0, 0, 0, 0, 0, 0] @
            [5, 0, 0, 0, 0, 0, 0, 0] @ [6, 0, 0, 0, 0, 0, 0, 0]) 0 ?cs = (Return (), cs')"
    by blast
  have rb: "read_bus_data_daly bus command_cell_volts 6 =
      (Return (Bytes ([1, 12, 228, 12, 229, 12, 230, 0] @ [2, 12, 231, 0, 0, 0, 0, 0] @
            [3, 0, 0, 0, 0, 0, 0, 0] @ [4, 0, 0, 0, 0, 0, 0, 0] @
            [5, 0, 0, 0, 0, 0, 0, 0] @ [6, 0, 0, 0, 0, 0, 0, 0])),
       bus\<lparr>rx := rest, sent := sent bus @ [command_cell_volts]\<rparr>)"
    by (rule read_bus_data_daly_6) (simp add: assms(2) cell_frames_def)
  show ?thesis
  proof (cases "int (length (cells self)) \<noteq> 4")
    case True
    with cw show ?thesis
      unfolding read_cells_volts_def assms(1) option.case rb prod.case outcome.case
        response.case Let_def
      by simp
  next
    case False
    with cw show ?thesis
      unfolding read_cells_volts_def assms(1) option.case rb prod.case outcome.case
        response.case Let_def
      by simp
  qed
qed

lemma cycle_ok_cells:
  assumes "rx bus = soc_frame # f # cell_frames @ rest" "8 \<le> length f"
    "poll_step self = 2" "cell_count self = Some 4"
  shows "\<exists>s. refresh_data example_config self bus =
           (Return True, s,
            bus\<lparr>rx := rest, sent := sent bus @ [command_soc, command_fet, command_cell_volts]\<rparr>)"
proof -
  from soc_fet_ok [OF assms(1,2)] obtain s2 where
    r2: "and_then (read_soc_data example_config self bus) read_fed_data =
       (Return True, s2,
        bus\<lparr>rx := cell_frames @ rest, sent := sent bus @ [command_soc, command_fet]\<rparr>)"
    by blast
  obtain o1 s1 b1 where r1: "read_soc_data example_config self bus = (o1, s1, b1)"
    by (cases "read_soc_data example_config self bus")
  have o1: "o1 = Return True"
    using r2 r1 by (auto simp: and_then_eq split: if_splits)
  have "same_ctl s1 self" using read_soc_data_frame [OF r1] by simp
  moreover have "same_ctl s2 s1"
    using r2 r1 o1 read_fed_data_frame [of s1 b1 "Return True" s2] by (simp add: and_then_eq)
  ultimately have ps: "poll_step s2 = 2" "cell_count s2 = Some 4"
    using assms(3,4) by (simp_all add: same_ctl_def)
  let ?b2 = "bus\<lparr>rx := cell_frames @ rest, sent := sent bus @ [command_soc, command_fet]\<rparr>"
  from read_cells_volts_ok [of s2 ?b2 rest example_config] ps(2)
  obtain s3 where "read_cells_volts example_config s2 ?b2 =
      (Return True, s3,
       bus\<lparr>rx := rest, sent := sent bus @ [command_soc, command_fet, command_cell_volts]\<rparr>)"
    by auto
  then show ?thesis
    unfolding refresh_data_alt r2 by (simp add: and_then_eq ps optional_read_def)
qed

lemma refresh_data_optional:
  assumes "refresh_data cfg self bus = (Return True, s', b')"
  shows "filter is_optional (new_requests bus b') =
           optional_requests (poll_step self) (cell_count self)"
    "poll_step s' = (if poll_step self = 3 then 0 else poll_step self + 1)"
    "cell_count s' = cell_count self"
  using refresh_data_requests(3) [OF assms] refresh_data_ctl(3,4) [OF assms] by simp_all

text \<open>
  C5 does not hold: while \<open>cell_count\<close> is \<open>None\<close> (as \<open>__init__\<close> leaves it) the read of
  poll step 2 sends no request and reads nothing. Four consecutive successful invocations
  from the initial model: the requests are the SOC and FET requests of each invocation
  and the cell-range, alarm and temperature-range requests; no per-cell request is sent.
\<close>

theorem refresh_data_no_cell_read_counterexample:
  "\<exists>s1 b1 s2 b2 s3 b3 s4.
     poll_step init_battery = 0 \<and>
     refresh_data example_config init_battery
         \<lparr>rx = [soc_frame, fet_frame, range_frame, soc_frame, fet_frame, alarm_frame,
                soc_frame, fet_frame, soc_frame, fet_frame, temp_frame], sent = []\<rparr> =
       (Return True, s1, b1) \<and>
     refresh_data example_config s1 b1 = (Return True, s2, b2) \<and>
     refresh_data example_config s2 b2 = (Return True, s3, b3) \<and>
     refresh_data example_config s3 b3 =
       (Return True, s4,
        \<lparr>rx = [],
         sent = [command_soc, command_fet, command_minmax_cell_volts,
                 command_soc, command_fet, command_alarm,
                 command_soc, command_fet,
                 command_soc, command_fet, command_minmax_temp]\<rparr>) \<and>
     new_requests b2 b3 = [command_soc, command_fet]"
proof -
  let ?b0 = "\<lparr>rx = [soc_frame, fet_frame, range_frame, soc_frame, fet_frame, alarm_frame,
                soc_frame, fet_frame, soc_frame, fet_frame, temp_frame], sent = []\<rparr>"
  let ?b1 = "\<lparr>rx = [soc_frame, fet_frame, alarm_frame,
                soc_frame, fet_frame, soc_frame, fet_frame, temp_frame],
              sent = [command_soc, command_fet, command_minmax_cell_volts]\<rparr>"
  let ?b2 = "\<lparr>rx = [soc_frame, fet_frame, soc_frame, fet_frame, temp_frame],
              sent = [command_soc, command_fet, command_minmax_cell_volts,
                      command_soc, command_fet, command_alarm]\<rparr>"
  let ?b3 = "\<lparr>rx = [soc_frame, fet_frame, temp_frame],
              sent = [command_soc, command_fet, command_minmax_cell_volts,
                      command_soc, command_fet, command_alarm, command_soc, command_fet]\<rparr>"
  let ?b4 = "\<lparr>rx = [],
              sent = [command_soc, command_fet, command_minmax_cell_volts,
                      command_soc, command_fet, command_alarm, command_soc, command_fet,
                      command_soc, command_fet, command_minmax_temp]\<rparr>"
  from cycle_ok [of ?b0 fet_frame range_frame _ init_battery] obtain s1 where
    r1: "refresh_data example_config init_battery ?b0 = (Return True, s1, ?b1)"
    by (auto simp: frames_length init_battery_simps optional_requests_def)
  from refresh_data_optional(2,3) [OF r1]
  have c1: "poll_step s1 = 1" "cell_count s1 = None" by (simp_all add: init_battery_simps)
  from cycle_ok [of ?b1 fet_frame alarm_frame _ s1] obtain s2 where
    r2: "refresh_data example_config s1 ?b1 = (Return True, s2, ?b2)"
    by (auto simp: frames_length c1 optional_requests_def)
  from refresh_data_optional(2,3) [OF r2]
  have c2: "poll_step s2 = 2" "cell_count s2 = None" by (simp_all add: c1)
  from cycle_ok_unknown [of ?b2 fet_frame _ s2] obtain s3 where
    r3: "refresh_data example_config s2 ?b2 = (Return True, s3, ?b3)"
    by (auto simp: frames_length c2)
  from refresh_data_optional(2,3) [OF r3]
  have c3: "poll_step s3 = 3" "cell_count s3 = None" by (simp_all add: c2)
  from cycle_ok [of ?b3 fet_frame temp_frame _ s3] obtain s4 where
    r4: "refresh_data example_config s3 ?b3 = (Return True, s4, ?b4)"
    by (auto simp: frames_length c3 optional_requests_def)
  have "new_requests ?b2 ?b3 = [command_soc, command_fet]"
    by (simp add: new_requests_def)
  with r1 r2 r3 r4 show ?thesis
    by (intro exI [of _ s1] exI [of _ ?b1] exI [of _ s2] exI [of _ ?b2] exI [of _ s3]
          exI [of _ ?b3] exI [of _ s4]) (simp add: init_battery_simps)
qed

text \<open>
  C5, as amended. An invocation of \<open>refresh_data\<close> that returns, True or False, with
  \<open>poll_step\<close> in \<open>{0, 1, 2, 3}\<close> leaves \<open>poll_step\<close> advanced by 1 modulo 4. Starting from
  \<open>poll_step = 0\<close>, four consecutive invocations that return True send, beside their SOC
  and FET requests, exactly one optional request each: cell range, alarm, per-cell
  voltages, temperature range, in that order, except that the third sends none while
  \<open>cell_count\<close> is \<open>None\<close>; after them \<open>poll_step\<close> is 0 again.
\<close>

theorem refresh_data_round_robin:
  "(poll_step self \<in> {0, 1, 2, 3} \<and> refresh_data cfg self bus = (Return x, self', bus') \<longrightarrow>
      poll_step self' = (poll_step self + 1) mod 4) \<and>
   (poll_step s0 = 0 \<and>
    refresh_data cfg s0 b0 = (Return True, s1, b1) \<and>
    refresh_data cfg s1 b1 = (Return True, s2, b2) \<and>
    refresh_data cfg s2 b2 = (Return True, s3, b3) \<and>
    refresh_data cfg s3 b3 = (Return True, s4, b4) \<longrightarrow>
      filter is_optional (new_requests b0 b1) = [command_minmax_cell_volts] \<and>
      filter is_optional (new_requests b1 b2) = [command_alarm] \<and>
      filter is_optional (new_requests b2 b3) =
        (if cell_count s0 = None then [] else [command_cell_volts]) \<and>
      filter is_optional (new_requests b3 b4) = [command_minmax_temp] \<and>
      poll_step s4 = 0)"
proof (intro conjI impI)
  assume "poll_step self \<in> {0, 1, 2, 3} \<and> refresh_data cfg self bus = (Return x, self', bus')"
  then have p: "poll_step self \<in> {0, 1, 2, 3}"
    and res: "refresh_data cfg self bus = (Return x, self', bus')" by simp_all
  from refresh_data_ctl(4) [OF res, of x] p
  show "poll_step self' = (poll_step self + 1) mod 4" by auto
next
  assume a: "poll_step s0 = 0 \<and>
    refresh_data cfg s0 b0 = (Return True, s1, b1) \<and>
    refresh_data cfg s1 b1 = (Return True, s2, b2) \<and>
    refresh_data cfg s2 b2 = (Return True, s3, b3) \<and>
    refresh_data cfg s3 b3 = (Return True, s4, b4)"
  then have r1: "refresh_data cfg s0 b0 = (Return True, s1, b1)"
    and r2: "refresh_data cfg s1 b1 = (Return True, s2, b2)"
    and r3: "refresh_data cfg s2 b2 = (Return True, s3, b3)"
    and r4: "refresh_data cfg s3 b3 = (Return True, s4, b4)"
    and p0: "poll_step s0 = 0" by simp_all
  note o1 = refresh_data_optional [OF r1]
  note o2 = refresh_data_optional [OF r2]
  note o3 = refresh_data_optional [OF r3]
  note o4 = refresh_data_optional [OF r4]
  have p1: "poll_step s1 = 1" using o1(2) p0 by simp
  have p2: "poll_step s2 = 2" using o2(2) p1 by simp
  have p3: "poll_step s3 = 3" using o3(2) p2 by simp
  have cc: "cell_count s2 = cell_count s0" using o1(3) o2(3) by simp
  show "filter is_optional (new_requests b0 b1) = [command_minmax_cell_volts]"
    using o1(1) p0 by (simp add: optional_requests_def)
  show "filter is_optional (new_requests b1 b2) = [command_alarm]"
    using o2(1) p1 by (simp add: optional_requests_def)
  show "filter is_optional (new_requests b2 b3) =
      (if cell_count s0 = None then [] else [command_cell_volts])"
    using o3(1) p2 cc by (simp add: optional_requests_def)
  show "filter is_optional (new_requests b3 b4) = [command_minmax_temp]"
    using o4(1) p3 by (simp add: optional_requests_def)
  show "poll_step s4 = 0" using o4(2) p3 by simp
qed

theorem refresh_data_round_robin_witness:
  "\<exists>s1 b1 s2 b2 s3 b3 s4 b4.
     poll_step (init_battery\<lparr>cell_count := Some 4\<rparr>) \<in> {0, 1, 2, 3} \<and>
     poll_step (init_battery\<lparr>cell_count := Some 4\<rparr>) = 0 \<and>
     refresh_data example_config (init_battery\<lparr>cell_count := Some 4\<rparr>)
         \<lparr>rx = soc_frame # fet_frame # range_frame # soc_frame # fet_frame # alarm_frame #
                soc_frame # fet_frame # cell_frames @ [soc_frame, fet_frame, temp_frame],
          sent = []\<rparr> = (Return True, s1, b1) \<and>
     refresh_data example_config s1 b1 = (Return True, s2, b2) \<and>
     refresh_data example_config s2 b2 = (Return True, s3, b3) \<and>
     refresh_data example_config s3 b3 = (Return True, s4, b4) \<and>
     poll_step s1 = (poll_step (init_battery\<lparr>cell_count := Some 4\<rparr>) + 1) mod 4 \<and>
     filter is_optional (new_requests
         \<lparr>rx = soc_frame # fet_frame # range_frame # soc_frame # fet_frame # alarm_frame #
                soc_frame # fet_frame # cell_frames @ [soc_frame, fet_frame, temp_frame],
          sent = []\<rparr> b1) = [command_minmax_cell_volts] \<and>
     filter is_optional (new_requests b1 b2) = [command_alarm] \<and>
     filter is_optional (new_requests b2 b3) = [command_cell_volts] \<and>
     filter is_optional (new_requests b3 b4) = [command_minmax_temp] \<and>
     poll_step s4 = 0 \<and> rx b4 = []"
proof -
  let ?s0 = "init_battery\<lparr>cell_count := Some 4\<rparr>"
  let ?b0 = "\<lparr>rx = soc_frame # fet_frame # range_frame # soc_frame # fet_frame # alarm_frame #
                soc_frame # fet_frame # cell_frames @ [soc_frame, fet_frame, temp_frame],
              sent = []\<rparr>"
  from cycle_ok [of ?b0 fet_frame range_frame _ ?s0] obtain s1 b1 where
    r1: "refresh_data example_config ?s0 ?b0 = (Return True, s1, b1)"
    and x1: "rx b1 = soc_frame # fet_frame # alarm_frame #
                soc_frame # fet_frame # cell_frames @ [soc_frame, fet_frame, temp_frame]"
    by (auto simp: frames_length init_battery_simps)
  from refresh_data_optional(2,3) [OF r1]
  have c1: "poll_step s1 = 1" "cell_count s1 = Some 4" by (simp_all add: init_battery_simps)
  from cycle_ok [OF x1, of s1] obtain s2 b2 where
    r2: "refresh_data example_config s1 b1 = (Return True, s2, b2)"
    and x2: "rx b2 = soc_frame # fet_frame # cell_frames @ [soc_frame, fet_frame, temp_frame]"
    by (auto simp: frames_length c1)
  from refresh_data_optional(2,3) [OF r2]
  have c2: "poll_step s2 = 2" "cell_count s2 = Some 4" by (simp_all add: c1)
  from cycle_ok_cells [OF x2, of s2] obtain s3 b3 where
    r3: "refresh_data example_config s2 b2 = (Return True, s3, b3)"
    and x3: "rx b3 = [soc_frame, fet_frame, temp_frame]"
    by (auto simp: frames_length c2)
  from refresh_data_optional(2,3) [OF r3]
  have c3: "poll_step s3 = 3" "cell_count s3 = Some 4" by (simp_all add: c2)
  from cycle_ok [of b3 fet_frame temp_frame "[]" s3] obtain s4 b4 where
    r4: "refresh_data example_config s3 b3 = (Return True, s4, b4)"
    and x4: "rx b4 = []"
    by (auto simp: frames_length c3 x3)
  from refresh_data_round_robin
    [of ?s0 example_config ?b0 True s1 b1 ?s0 ?b0 s1 b1 s2 b2 s3 b3 s4 b4] r1 r2 r3 r4 x4
  show ?thesis
    by (intro exI [of _ s1] exI [of _ b1] exI [of _ s2] exI [of _ b2] exI [of _ s3]
          exI [of _ b3] exI [of _ s4] exI [of _ b4]) (simp add: init_battery_simps)
qed

end
